theory Spec2Isabelle
  imports Main "HOL-Library.Sublist"
begin

section \<open>Python values used by app.py\<close>

text \<open>
  A Python \<open>str\<close> is modelled as a \<open>string\<close>; a character outside ASCII (the emoji of the
  user-interface texts) is written as its UTF-8 bytes. \<open>bytes\<close> objects are byte lists.
\<close>

type_synonym bytes = "char list"

text \<open>
  What \<open>json.loads\<close> can return. \<open>JNull\<close> is Python's \<open>None\<close>, a \<open>dict\<close> is an
  association list read with \<open>map_of\<close>. Floating-point numbers are not interpreted: their
  type is the parameter \<open>'f\<close>.
\<close>

datatype 'f json =
    JNull
  | JBool bool
  | JInt int
  | JFloat 'f
  | JStr string
  | JArr "'f json list"
  | JObj "(string \<times> 'f json) list"

text \<open>
  Exceptions below \<open>Exception\<close>, with the text \<open>str(e)\<close> gives. \<open>KeyboardInterrupt\<close> and
  \<open>SystemExit\<close>, which no \<open>except Exception\<close> catches, are not modelled.
\<close>

datatype exn_class = FileNotFoundError | AttributeError | IndexError | TypeError | OtherError

datatype exn = Exn (exn_class: exn_class) (exn_str: string)

definition sq :: char where
  "sq = CHR 0x27"

definition dq :: char where
  "dq = CHR 0x22"

definition nl :: char where
  "nl = CHR 0x0A"

text \<open>Truth value of a Python object in \<open>if v:\<close>; \<open>fnz\<close> tells whether a float is nonzero.\<close>

fun truthy :: "('f \<Rightarrow> bool) \<Rightarrow> 'f json \<Rightarrow> bool" where
  "truthy fnz JNull = False"
| "truthy fnz (JBool b) = b"
| "truthy fnz (JInt i) = (i \<noteq> 0)"
| "truthy fnz (JFloat x) = fnz x"
| "truthy fnz (JStr s) = (s \<noteq> [])"
| "truthy fnz (JArr xs) = (xs \<noteq> [])"
| "truthy fnz (JObj kvs) = (kvs \<noteq> [])"

fun type_name :: "'f json \<Rightarrow> string" where
  "type_name JNull = ''NoneType''"
| "type_name (JBool b) = ''bool''"
| "type_name (JInt i) = ''int''"
| "type_name (JFloat x) = ''float''"
| "type_name (JStr s) = ''str''"
| "type_name (JArr xs) = ''list''"
| "type_name (JObj kvs) = ''dict''"

text \<open>\<open>v.get(k, d)\<close>: only a \<open>dict\<close> has the method; on any other object the attribute
  lookup raises \<open>AttributeError\<close>.\<close>

definition dict_get :: "(string \<times> 'f json) list \<Rightarrow> string \<Rightarrow> 'f json \<Rightarrow> 'f json" where
  "dict_get kvs k d = (case map_of kvs k of None \<Rightarrow> d | Some x \<Rightarrow> x)"

definition py_get :: "'f json \<Rightarrow> string \<Rightarrow> 'f json \<Rightarrow> exn + 'f json" where
  "py_get v k d =
     (case v of
        JObj kvs \<Rightarrow> Inr (dict_get kvs k d)
      | _ \<Rightarrow> Inl (Exn AttributeError
                 ([sq] @ type_name v @ [sq] @ '' object has no attribute '' @ [sq] @ ''get'' @ [sq])))"

text \<open>Decimal text of \<open>num_faces\<close> in an f-string.\<close>

definition digit_char :: "nat \<Rightarrow> char" where
  "digit_char d = char_of (48 + d)"

fun show_nat :: "nat \<Rightarrow> string" where
  "show_nat n = (if n < 10 then [digit_char n] else show_nat (n div 10) @ [digit_char (n mod 10)])"

declare show_nat.simps [simp del]

definition show_int :: "int \<Rightarrow> string" where
  "show_int i = (if i < 0 then ''-'' @ show_nat (nat (- i)) else show_nat (nat i))"

section \<open>Configuration, external services, events\<close>

text \<open>The secrets of lines 23-31, already loaded.\<close>

record config =
  GROQ_API_KEY :: string
  SENDER_EMAIL :: string
  EMAIL_PASSWORD :: string
  RECEIVER_EMAIL :: string
  TWILIO_ACCOUNT_SID :: string
  TWILIO_AUTH_TOKEN :: string
  TWILIO_WHATSAPP_NUMBER :: string
  MY_WHATSAPP_NUMBER :: string

text \<open>The keyword arguments of \<open>client.chat.completions.create\<close> (lines 52-61).\<close>

record chat_request =
  req_text :: string
  req_image_url :: string
  req_model :: string
  req_response_format :: string

type_synonym facebox = "int \<times> int \<times> int \<times> int"

text \<open>
  The libraries and services app.py calls are not part of the repository; each is a
  parameter giving the outcome of the call: the value returned, or the exception raised.
  \<^item> \<open>decode_bgr\<close>: lines 162-165, PIL decoding and the conversion to a BGR pixel grid;
  \<^item> \<open>cv_detect\<close>: lines 71-73, loading the cascade, the grayscale conversion and
    \<open>detectMultiScale\<close>, giving the first exception raised or the boxes found;
  \<^item> \<open>cv_rectangle img pt1 pt2 color thickness\<close>: the pixel grid after \<open>cv2.rectangle\<close>;
  \<^item> \<open>groq_create key req\<close>: lines 44 and 52-61, giving the \<open>message.content\<close> of each
    element of \<open>choices\<close>;
  \<^item> \<open>smtp_deliver sender password receiver subject body image\<close>: lines 91-103, building
    the MIME message and the SMTP session, \<open>None\<close> when nothing raised;
  \<^item> \<open>twilio_create sid token from body to\<close>: lines 111-116;
  \<^item> \<open>str_other\<close>: \<open>str(v)\<close> for a float, a list or a dict.
\<close>

record ('f, 'img) env =
  float_nonzero :: "'f \<Rightarrow> bool"
  str_other :: "'f json \<Rightarrow> string"
  decode_bgr :: "bytes \<Rightarrow> exn + 'img"
  cv_detect :: "'img \<Rightarrow> exn + facebox list"
  cv_rectangle :: "'img \<Rightarrow> int \<times> int \<Rightarrow> int \<times> int \<Rightarrow> nat \<times> nat \<times> nat \<Rightarrow> nat \<Rightarrow> exn + 'img"
  b64encode :: "bytes \<Rightarrow> string"
  groq_create :: "string \<Rightarrow> chat_request \<Rightarrow> exn + string option list"
  json_loads :: "string \<Rightarrow> exn + 'f json"
  smtp_deliver :: "string \<Rightarrow> string \<Rightarrow> string \<Rightarrow> string \<Rightarrow> 'f json \<Rightarrow> bytes \<Rightarrow> exn option"
  twilio_create :: "string \<Rightarrow> string \<Rightarrow> string \<Rightarrow> string \<Rightarrow> string \<Rightarrow> exn option"

text \<open>
  What an invocation does that can be seen from outside, in order: the Streamlit calls,
  the entry into each backend function, and the calls to the three external services.
  \<open>St_image\<close> carries the pixels shown and the caption; the \<open>Col_\<close> events carry the
  column (1 or 2) of \<open>st.columns(2)\<close>. A Streamlit call is taken to return normally. The
  page set-up, the title and the sidebar (lines 15-20 and 124-141) show fixed texts and
  are left out; the toggle of the sidebar is the input \<open>alerts_enabled\<close>.
\<close>

datatype ('f, 'img) event =
    St_error string
  | St_warning string
  | St_info string
  | St_toast string string
  | St_subheader string
  | St_spinner string
  | St_image 'img string
  | St_columns nat
  | Col_success nat string
  | Col_error nat string
  | Col_info nat string
  | Call_analyze_image_for_mask bytes
  | Groq_request string chat_request
  | Call_send_alert_email string "'f json" bytes
  | Smtp_session string string string string "'f json" bytes
  | Call_send_whatsapp_alert string
  | Twilio_request string string string string string

text \<open>
  The numpy arrays live in a heap, addressed by position, since \<open>cv2.rectangle\<close> draws in
  place and \<open>detect_faces\<close> may return its argument itself.
\<close>

record ('f, 'img) world =
  heap :: "'img list"
  log :: "('f, 'img) event list"

definition emit :: "('f, 'img) event \<Rightarrow> ('f, 'img) world \<Rightarrow> ('f, 'img) world" where
  "emit e w = w\<lparr>log := log w @ [e]\<rparr>"

text \<open>Formatting \<open>{reason}\<close> in an f-string: \<open>str(reason)\<close>.\<close>

definition py_format :: "('f, 'img) env \<Rightarrow> 'f json \<Rightarrow> string" where
  "py_format env v =
     (case v of
        JStr s \<Rightarrow> s
      | JNull \<Rightarrow> ''None''
      | JBool b \<Rightarrow> (if b then ''True'' else ''False'')
      | JInt i \<Rightarrow> show_int i
      | _ \<Rightarrow> str_other env v)"

section \<open>The backend functions\<close>

subsection \<open>analyze_image_for_mask (lines 42-66)\<close>

definition prompt :: string where
  "prompt =
     [nl] @ ''        Analyze the person in the provided image. Respond with a JSON object that has two keys:'' @
     [nl] @ ''        1. '' @ [dq] @ ''mask_detected'' @ [dq] @
            '': a boolean (true if a face mask is worn correctly, otherwise false).'' @
     [nl] @ ''        2. '' @ [dq] @ ''reason'' @ [dq] @
            '': a brief string explaining your choice in 1-2 sentences.'' @
     [nl] @ ''        Provide only the raw JSON object in your response.'' @
     [nl] @ ''        ''"

definition mask_request :: "('f, 'img) env \<Rightarrow> bytes \<Rightarrow> chat_request" where
  "mask_request env image_bytes =
     \<lparr>req_text = prompt,
      req_image_url = ''data:image/jpeg;base64,'' @ b64encode env image_bytes,
      req_model = ''meta-llama/llama-4-scout-17b-16e-instruct'',
      req_response_format = ''json_object''\<rparr>"

text \<open>The body of the \<open>try\<close>: \<open>choices[0]\<close> of an empty list raises \<open>IndexError\<close>, and
  \<open>json.loads\<close> of a content that is \<open>None\<close> raises \<open>TypeError\<close>.\<close>

definition analyze_try :: "('f, 'img) env \<Rightarrow> config \<Rightarrow> bytes \<Rightarrow> exn + 'f json" where
  "analyze_try env cfg image_bytes =
     (case groq_create env (GROQ_API_KEY cfg) (mask_request env image_bytes) of
        Inl e \<Rightarrow> Inl e
      | Inr choices \<Rightarrow>
          (case choices of
             [] \<Rightarrow> Inl (Exn IndexError ''list index out of range'')
           | response_content # _ \<Rightarrow>
               (case response_content of
                  None \<Rightarrow> Inl (Exn TypeError
                     ''the JSON object must be str, bytes or bytearray, not NoneType'')
                | Some s \<Rightarrow> json_loads env s)))"

definition analyze_image_for_mask ::
  "('f, 'img) env \<Rightarrow> config \<Rightarrow> bytes \<Rightarrow> ('f, 'img) world \<Rightarrow> 'f json \<times> ('f, 'img) world" where
  "analyze_image_for_mask env cfg image_bytes w =
     (let w1 = emit (Call_analyze_image_for_mask image_bytes) w;
          w2 = emit (Groq_request (GROQ_API_KEY cfg) (mask_request env image_bytes)) w1
      in case analyze_try env cfg image_bytes of
           Inr v \<Rightarrow> (v, w2)
         | Inl e \<Rightarrow> (JNull, emit (St_error (''Groq API Error: '' @ exn_str e)) w2))"

subsection \<open>detect_faces (lines 69-86)\<close>

text \<open>The loop of lines 77-78 on the array at address \<open>b\<close>; it stops at the first
  exception, leaving what was drawn so far.\<close>

fun draw_boxes ::
  "('f, 'img) env \<Rightarrow> nat \<Rightarrow> facebox list \<Rightarrow> 'img list \<Rightarrow> exn option \<times> 'img list" where
  "draw_boxes env b [] h = (None, h)"
| "draw_boxes env b ((x, y, w, ht) # faces) h =
     (case cv_rectangle env (h ! b) (x, y) (x + w, y + ht) (255, 0, 0) 2 of
        Inl e \<Rightarrow> (Some e, h)
      | Inr img \<Rightarrow> draw_boxes env b faces (h[b := img]))"

text \<open>The two \<open>except\<close> clauses, in the source's order.\<close>

definition detect_except ::
  "nat \<Rightarrow> exn \<Rightarrow> ('f, 'img) world \<Rightarrow> (nat \<times> nat) \<times> ('f, 'img) world" where
  "detect_except image_np e w =
     (if exn_class e = FileNotFoundError
      then ((image_np, 0),
            emit (St_error ''haarcascade_frontalface_default.xml not found. Please download it.'') w)
      else ((image_np, 0), emit (St_error (''Face detection error: '' @ exn_str e)) w))"

text \<open>\<open>image_np\<close> is the address of the argument; the result is the address of the array
  returned and the number of faces.\<close>

definition detect_faces ::
  "('f, 'img) env \<Rightarrow> nat \<Rightarrow> ('f, 'img) world \<Rightarrow> (nat \<times> nat) \<times> ('f, 'img) world" where
  "detect_faces env image_np w =
     (case cv_detect env (heap w ! image_np) of
        Inl e \<Rightarrow> detect_except image_np e w
      | Inr faces \<Rightarrow>
          (let image_with_boxes = length (heap w);
               h1 = heap w @ [heap w ! image_np]
           in case draw_boxes env image_with_boxes faces h1 of
                (Some e, h2) \<Rightarrow> detect_except image_np e (w\<lparr>heap := h2\<rparr>)
              | (None, h2) \<Rightarrow> ((image_with_boxes, length faces), w\<lparr>heap := h2\<rparr>)))"

subsection \<open>send_alert_email (lines 89-106) and send_whatsapp_alert (lines 109-119)\<close>

definition check_mark :: string where
  "check_mark = [CHR 0xE2, CHR 0x9C, CHR 0x85]"

definition envelope :: string where
  "envelope = [CHR 0xF0, CHR 0x9F, CHR 0x93, CHR 0xA7]"

definition phone :: string where
  "phone = [CHR 0xF0, CHR 0x9F, CHR 0x93, CHR 0xB1]"

definition chart :: string where
  "chart = [CHR 0xF0, CHR 0x9F, CHR 0x93, CHR 0x88]"

definition siren :: string where
  "siren = [CHR 0xF0, CHR 0x9F, CHR 0x9A, CHR 0xA8]"

definition send_alert_email ::
  "('f, 'img) env \<Rightarrow> config \<Rightarrow> string \<Rightarrow> 'f json \<Rightarrow> bytes \<Rightarrow> ('f, 'img) world \<Rightarrow> ('f, 'img) world" where
  "send_alert_email env cfg subject body image_bytes w =
     (let w1 = emit (Call_send_alert_email subject body image_bytes) w;
          w2 = emit (Smtp_session (SENDER_EMAIL cfg) (EMAIL_PASSWORD cfg) (RECEIVER_EMAIL cfg)
                       subject body image_bytes) w1
      in case smtp_deliver env (SENDER_EMAIL cfg) (EMAIL_PASSWORD cfg) (RECEIVER_EMAIL cfg)
                subject body image_bytes of
           None \<Rightarrow> emit (St_toast (check_mark @ '' Email alert sent successfully!'') envelope) w2
         | Some e \<Rightarrow> emit (St_error (''Failed to send email: '' @ exn_str e)) w2)"

definition send_whatsapp_alert ::
  "('f, 'img) env \<Rightarrow> config \<Rightarrow> string \<Rightarrow> ('f, 'img) world \<Rightarrow> ('f, 'img) world" where
  "send_whatsapp_alert env cfg body w =
     (let w1 = emit (Call_send_whatsapp_alert body) w;
          from = ''whatsapp:'' @ TWILIO_WHATSAPP_NUMBER cfg;
          to = ''whatsapp:'' @ MY_WHATSAPP_NUMBER cfg;
          w2 = emit (Twilio_request (TWILIO_ACCOUNT_SID cfg) (TWILIO_AUTH_TOKEN cfg) from body to) w1
      in case twilio_create env (TWILIO_ACCOUNT_SID cfg) (TWILIO_AUTH_TOKEN cfg) from body to of
           None \<Rightarrow> emit (St_toast (check_mark @ '' WhatsApp alert sent successfully!'') phone) w2
         | Some e \<Rightarrow> emit (St_error (''Failed to send WhatsApp message: '' @ exn_str e)) w2)"

section \<open>The script\<close>

subsection \<open>The body of the Analyze button (lines 168-202)\<close>

text \<open>The texts of lines 199 and 200.\<close>

definition alert_subject :: string where
  "alert_subject = ''ALERT: Face Mask Violation Detected!''"

definition alert_body_whatsapp :: "('f, 'img) env \<Rightarrow> 'f json \<Rightarrow> string" where
  "alert_body_whatsapp env reason =
     siren @ '' *ALERT: Face Mask Violation!* '' @ siren @ [nl, nl] @ ''*Reason:* '' @
     py_format env reason"

text \<open>Lines 197-202, once \<open>reason\<close> is known.\<close>

definition send_alerts ::
  "('f, 'img) env \<Rightarrow> config \<Rightarrow> 'f json \<Rightarrow> bytes \<Rightarrow> ('f, 'img) world \<Rightarrow> ('f, 'img) world" where
  "send_alerts env cfg reason image_bytes w =
     (let w1 = emit (St_warning ''Violation detected! Sending alerts...'') w;
          w2 = send_alert_email env cfg alert_subject reason image_bytes w1
      in send_whatsapp_alert env cfg (alert_body_whatsapp env reason) w2)"

text \<open>Lines 182-202. The result is the exception that leaves the script, if any.\<close>

definition show_result ::
  "('f, 'img) env \<Rightarrow> config \<Rightarrow> bool \<Rightarrow> bytes \<Rightarrow> 'f json \<Rightarrow> ('f, 'img) world \<Rightarrow>
     exn option \<times> ('f, 'img) world" where
  "show_result env cfg alerts_enabled image_bytes analysis_result w =
     (if truthy (float_nonzero env) analysis_result then
        (let w1 = emit (St_subheader (chart @ '' Analysis Complete'')) w;
             w2 = emit (St_columns 2) w1
         in case py_get analysis_result ''mask_detected'' (JBool False) of
              Inl e \<Rightarrow> (Some e, w2)
            | Inr mask_detected \<Rightarrow>
                (case py_get analysis_result ''reason'' (JStr ''No reason provided.'') of
                   Inl e \<Rightarrow> (Some e, w2)
                 | Inr reason \<Rightarrow>
                     (let w3 = (if truthy (float_nonzero env) mask_detected
                                then emit (Col_success 1 ''**Status:** Mask Detected'') w2
                                else emit (Col_error 1 ''**Status:** No Mask Detected (Violation)'') w2);
                          w4 = emit (Col_info 2 (''**AI Reason:** '' @ py_format env reason)) w3
                      in if \<not> truthy (float_nonzero env) mask_detected \<and> alerts_enabled
                         then (None, send_alerts env cfg reason image_bytes w4)
                         else (None, w4))))
      else (None, w))"

text \<open>Lines 168-202: \<open>image_bytes\<close> are the bytes of the upload, \<open>image_cv\<close> the address of
  the decoded pixel grid.\<close>

definition analyze_button ::
  "('f, 'img) env \<Rightarrow> config \<Rightarrow> bool \<Rightarrow> bytes \<Rightarrow> nat \<Rightarrow> ('f, 'img) world \<Rightarrow>
     exn option \<times> ('f, 'img) world" where
  "analyze_button env cfg alerts_enabled image_bytes image_cv w =
     (let w1 = emit (St_spinner ''Step 1/2: Detecting faces...'') w
      in case detect_faces env image_cv w1 of
           ((image_with_boxes, num_faces), w2) \<Rightarrow>
             if num_faces = 0 then
               (let w3 = emit (St_warning
                     ''No faces were detected in the image. Cannot proceed with mask analysis.'') w2
                in (None, emit (St_image (heap w3 ! image_with_boxes) ''Face Detection Result'') w3))
             else
               (let w3 = emit (St_image (heap w2 ! image_with_boxes)
                     (''Face Detection Result: '' @ show_nat num_faces @ '' face(s) found!'')) w2;
                    w4 = emit (St_spinner ''Step 2/2: Analyzing for mask with Meta Llama 4...'') w3
                in case analyze_image_for_mask env cfg image_bytes w4 of
                     (analysis_result, w5) \<Rightarrow>
                       show_result env cfg alerts_enabled image_bytes analysis_result w5))"

subsection \<open>Image input and analysis (lines 144-202)\<close>

text \<open>
  \<open>uploaded\<close> and \<open>camera\<close> are the contents of the file of each widget, if any; the
  camera widget exists only when nothing was uploaded. \<open>clicked\<close> is what
  \<open>st.button\<close> returns, \<open>alerts_enabled\<close> the toggle of the sidebar. A failure to decode
  the image is caught nowhere.
\<close>

definition app_script ::
  "('f, 'img) env \<Rightarrow> config \<Rightarrow> bool \<Rightarrow> bytes option \<Rightarrow> bytes option \<Rightarrow> bool \<Rightarrow>
     ('f, 'img) world \<Rightarrow> exn option \<times> ('f, 'img) world" where
  "app_script env cfg alerts_enabled uploaded camera clicked w =
     (let w1 = emit (St_subheader ''1. Provide an Image'') w;
          (source_img, w2) =
            (case uploaded of
               Some f \<Rightarrow> (Some f, w1)
             | None \<Rightarrow> (camera, emit (St_info ''Or, use the camera input below.'') w1))
      in case source_img of
           None \<Rightarrow> (None, w2)
         | Some image_bytes \<Rightarrow>
             (let w3 = emit (St_subheader ''2. Analyze and Get Results'') w2
              in case decode_bgr env image_bytes of
                   Inl e \<Rightarrow> (Some e, w3)
                 | Inr img \<Rightarrow>
                     (let image_cv = length (heap w3);
                          w4 = w3\<lparr>heap := heap w3 @ [img]\<rparr>
                      in if clicked
                         then analyze_button env cfg alerts_enabled image_bytes image_cv w4
                         else (None, w4))))"

section \<open>Reading the log\<close>

fun is_sink_call :: "('f, 'img) event \<Rightarrow> bool" where
  "is_sink_call (Call_send_alert_email s b i) = True"
| "is_sink_call (Smtp_session a p r s b i) = True"
| "is_sink_call (Call_send_whatsapp_alert b) = True"
| "is_sink_call (Twilio_request a t f b r) = True"
| "is_sink_call _ = False"

fun is_classifier_call :: "('f, 'img) event \<Rightarrow> bool" where
  "is_classifier_call (Call_analyze_image_for_mask i) = True"
| "is_classifier_call (Groq_request k r) = True"
| "is_classifier_call _ = False"

fun is_status :: "('f, 'img) event \<Rightarrow> bool" where
  "is_status (Col_success c t) = True"
| "is_status (Col_error c t) = True"
| "is_status _ = False"

fun is_reason_use :: "('f, 'img) event \<Rightarrow> bool" where
  "is_reason_use (Col_info c t) = True"
| "is_reason_use (Call_send_alert_email s b i) = True"
| "is_reason_use (Smtp_session a p r s b i) = True"
| "is_reason_use (Call_send_whatsapp_alert b) = True"
| "is_reason_use (Twilio_request a t f b r) = True"
| "is_reason_use _ = False"

text \<open>What a backend function shows when it returns: a toast or an error message.\<close>

fun is_report :: "('f, 'img) event \<Rightarrow> bool" where
  "is_report (St_error m) = True"
| "is_report (St_toast m i) = True"
| "is_report _ = False"

text \<open>An event that carries image bytes carries \<open>image_bytes\<close>, and a request to the
  model is the one built from \<open>image_bytes\<close>.\<close>

fun carries_original :: "('f, 'img) env \<Rightarrow> bytes \<Rightarrow> ('f, 'img) event \<Rightarrow> bool" where
  "carries_original env image_bytes (Call_analyze_image_for_mask i) = (i = image_bytes)"
| "carries_original env image_bytes (Groq_request k r) = (r = mask_request env image_bytes)"
| "carries_original env image_bytes (Call_send_alert_email s b i) = (i = image_bytes)"
| "carries_original env image_bytes (Smtp_session a p r s b i) = (i = image_bytes)"
| "carries_original env image_bytes _ = True"

text \<open>The status line of lines 189-192 for a value of \<open>mask_detected\<close>.\<close>

definition status_event :: "('f, 'img) env \<Rightarrow> 'f json \<Rightarrow> ('f, 'img) event" where
  "status_event env m =
     (if truthy (float_nonzero env) m
      then Col_success 1 ''**Status:** Mask Detected''
      else Col_error 1 ''**Status:** No Mask Detected (Violation)'')"

text \<open>The calls of lines 201-202 for a value of \<open>reason\<close>, each with the request to its
  service.\<close>

definition alert_calls ::
  "('f, 'img) env \<Rightarrow> config \<Rightarrow> 'f json \<Rightarrow> bytes \<Rightarrow> ('f, 'img) event list" where
  "alert_calls env cfg reason image_bytes =
     [Call_send_alert_email alert_subject reason image_bytes,
      Smtp_session (SENDER_EMAIL cfg) (EMAIL_PASSWORD cfg) (RECEIVER_EMAIL cfg)
        alert_subject reason image_bytes,
      Call_send_whatsapp_alert (alert_body_whatsapp env reason),
      Twilio_request (TWILIO_ACCOUNT_SID cfg) (TWILIO_AUTH_TOKEN cfg)
        (''whatsapp:'' @ TWILIO_WHATSAPP_NUMBER cfg) (alert_body_whatsapp env reason)
        (''whatsapp:'' @ MY_WHATSAPP_NUMBER cfg)]"

text \<open>A picture with a rectangle drawn for each box in turn, as a value.\<close>

fun draw_all :: "('f, 'img) env \<Rightarrow> 'img \<Rightarrow> facebox list \<Rightarrow> exn + 'img" where
  "draw_all env img [] = Inr img"
| "draw_all env img ((x, y, w, ht) # faces) =
     (case cv_rectangle env img (x, y) (x + w, y + ht) (255, 0, 0) 2 of
        Inl e \<Rightarrow> Inl e
      | Inr img' \<Rightarrow> draw_all env img' faces)"

text \<open>The events an invocation added to the log it started with.\<close>

definition added :: "('f, 'img) world \<Rightarrow> ('f, 'img) world \<Rightarrow> ('f, 'img) event list" where
  "added w w' = drop (length (log w)) (log w')"

text \<open>Exception \<open>e\<close> is raised inside the \<open>try\<close> of \<open>detect_faces\<close>, by the detector or
  while the rectangles are drawn, when the array at \<open>image_np\<close> in heap \<open>h\<close> is given.\<close>

definition detection_fails :: "('f, 'img) env \<Rightarrow> nat \<Rightarrow> 'img list \<Rightarrow> exn \<Rightarrow> bool" where
  "detection_fails env image_np h e =
     (case cv_detect env (h ! image_np) of
        Inl e' \<Rightarrow> e' = e
      | Inr faces \<Rightarrow> fst (draw_boxes env (length h) faces (h @ [h ! image_np])) = Some e)"

text \<open>The call to the model raises \<open>e\<close>, or \<open>json.loads\<close> raises \<open>e\<close> on the content of
  its first choice.\<close>

definition classifier_fails :: "('f, 'img) env \<Rightarrow> config \<Rightarrow> bytes \<Rightarrow> exn \<Rightarrow> bool" where
  "classifier_fails env cfg image_bytes e =
     (case groq_create env (GROQ_API_KEY cfg) (mask_request env image_bytes) of
        Inl e' \<Rightarrow> e' = e
      | Inr choices \<Rightarrow>
          (case choices of
             [] \<Rightarrow> False
           | response_content # _ \<Rightarrow>
               (case response_content of
                  None \<Rightarrow> False
                | Some s \<Rightarrow> json_loads env s = Inl e)))"

section \<open>A concrete environment\<close>

text \<open>
  An environment whose services answer with fixed outcomes, for running the script on
  concrete inputs: pictures are numbers, drawing a rectangle adds one, there are no floats.
\<close>

definition fixed_env ::
  "(exn + facebox list) \<Rightarrow> (exn + string option list) \<Rightarrow> (exn + unit json) \<Rightarrow>
     exn option \<Rightarrow> exn option \<Rightarrow> (unit, nat) env" where
  "fixed_env det chat parsed mail wa =
     \<lparr>float_nonzero = (\<lambda>_. True),
      str_other = (\<lambda>_. ''?''),
      decode_bgr = (\<lambda>bs. Inr (length bs)),
      cv_detect = (\<lambda>_. det),
      cv_rectangle = (\<lambda>img p q c t. Inr (Suc img)),
      b64encode = (\<lambda>bs. bs),
      groq_create = (\<lambda>k r. chat),
      json_loads = (\<lambda>s. parsed),
      smtp_deliver = (\<lambda>a p r s b i. mail),
      twilio_create = (\<lambda>a t f b r. wa)\<rparr>"

definition fixed_cfg :: config where
  "fixed_cfg =
     \<lparr>GROQ_API_KEY = ''k'', SENDER_EMAIL = ''s@x'', EMAIL_PASSWORD = ''p'',
      RECEIVER_EMAIL = ''r@x'', TWILIO_ACCOUNT_SID = ''sid'', TWILIO_AUTH_TOKEN = ''tok'',
      TWILIO_WHATSAPP_NUMBER = ''+1'', MY_WHATSAPP_NUMBER = ''+2''\<rparr>"

definition fixed_world :: "(unit, nat) world" where
  "fixed_world = \<lparr>heap = [7], log = []\<rparr>"

definition two_faces :: "facebox list" where
  "two_faces = [(10, 10, 40, 40), (80, 20, 35, 35)]"

text \<open>Verdicts: the one of the scenario, one without \<open>mask_detected\<close>, one without
  \<open>reason\<close>.\<close>

definition scenario_verdict :: "unit json" where
  "scenario_verdict =
     JObj [(''mask_detected'', JBool False), (''reason'', JStr ''visible nose and mouth'')]"

definition reason_only :: "unit json" where
  "reason_only = JObj [(''reason'', JStr ''unclear'')]"

definition mask_only :: "unit json" where
  "mask_only = JObj [(''mask_detected'', JBool False)]"

text \<open>Environments: the scenario, the scenario with the mail server down, the two
  incomplete verdicts, no face, no cascade file, the model unreachable, and an answer
  that is not JSON.\<close>

definition env_scenario :: "(unit, nat) env" where
  "env_scenario = fixed_env (Inr two_faces) (Inr [Some ''(json)'']) (Inr scenario_verdict) None None"

definition env_smtp_down :: "(unit, nat) env" where
  "env_smtp_down = fixed_env (Inr two_faces) (Inr [Some ''(json)'']) (Inr scenario_verdict)
     (Some (Exn OtherError ''smtp down'')) None"

definition env_reason_only :: "(unit, nat) env" where
  "env_reason_only = fixed_env (Inr two_faces) (Inr [Some ''(json)'']) (Inr reason_only) None None"

definition env_mask_only :: "(unit, nat) env" where
  "env_mask_only = fixed_env (Inr two_faces) (Inr [Some ''(json)'']) (Inr mask_only) None None"

definition env_no_faces :: "(unit, nat) env" where
  "env_no_faces = fixed_env (Inr []) (Inr [Some ''(json)'']) (Inr scenario_verdict) None None"

definition env_no_cascade :: "(unit, nat) env" where
  "env_no_cascade = fixed_env (Inl (Exn FileNotFoundError ''missing'')) (Inr [Some ''(json)''])
     (Inr scenario_verdict) None None"

definition env_groq_down :: "(unit, nat) env" where
  "env_groq_down = fixed_env (Inr two_faces) (Inl (Exn OtherError ''connection refused''))
     (Inr scenario_verdict) None None"

definition env_bad_json :: "(unit, nat) env" where
  "env_bad_json = fixed_env (Inr two_faces) (Inr [Some ''not json''])
     (Inl (Exn OtherError ''Expecting value'')) None None"

section \<open>How each function extends the log\<close>

text \<open>
  Each function only appends to the log. The lemmas of this section give what it appends:
  first for the backend functions, then for the body of the button, on each of its paths.
\<close>

lemma log_emit [simp]: "log (emit e w) = log w @ [e]"
  by (simp add: emit_def)

lemma heap_emit [simp]: "heap (emit e w) = heap w"
  by (simp add: emit_def)

lemma added_append: "log w' = log w @ es \<Longrightarrow> added w w' = es"
  by (simp add: added_def)

lemma report_silent:
  assumes "is_report r"
  shows "\<not> is_sink_call r" "\<not> is_classifier_call r" "\<not> is_status r" "\<not> is_reason_use r"
    "carries_original env bs r"
  using assms by (cases r; simp)+

lemma reports_silent:
  assumes "list_all is_report es"
  shows "filter is_sink_call es = []" "filter is_classifier_call es = []"
    "filter is_status es = []" "filter is_reason_use es = []"
    "list_all (carries_original env bs) es"
  using assms by (induction es) (auto simp: report_silent )

lemma detect_except_result:
  "detect_except a e w =
     ((a, 0), emit (St_error (if exn_class e = FileNotFoundError
        then ''haarcascade_frontalface_default.xml not found. Please download it.''
        else ''Face detection error: '' @ exn_str e)) w)"
  by (simp add: detect_except_def)

lemma detect_faces_added:
  assumes "detect_faces env a w1 = ((b, n), w2)"
  shows "\<exists>es. log w2 = log w1 @ es \<and> list_all is_report es"
proof -
  have "log w2 = log w1 @ [] \<or> (\<exists>m. log w2 = log w1 @ [St_error m])"
    using assms
    by (auto simp: detect_faces_def detect_except_result Let_def
             split: sum.splits prod.splits option.splits)
  then show ?thesis
  proof
    assume "log w2 = log w1 @ []"
    then have "log w2 = log w1 @ [] \<and> list_all is_report []" by simp
    then show ?thesis by blast
  next
    assume "\<exists>m. log w2 = log w1 @ [St_error m]"
    then obtain m where "log w2 = log w1 @ [St_error m]" by blast
    then have "log w2 = log w1 @ [St_error m] \<and> list_all is_report [St_error m]" by simp
    then show ?thesis by blast
  qed
qed

lemma analyze_log:
  "log (snd (analyze_image_for_mask env cfg bs w)) =
     log w @ [Call_analyze_image_for_mask bs, Groq_request (GROQ_API_KEY cfg) (mask_request env bs)] @
     (case analyze_try env cfg bs of
        Inr v \<Rightarrow> []
      | Inl e \<Rightarrow> [St_error (''Groq API Error: '' @ exn_str e)])"
  by (simp add: analyze_image_for_mask_def Let_def split: sum.splits)

lemma analyze_value:
  "fst (analyze_image_for_mask env cfg bs w) =
     (case analyze_try env cfg bs of Inr v \<Rightarrow> v | Inl e \<Rightarrow> JNull)"
  by (simp add: analyze_image_for_mask_def Let_def split: sum.splits)

lemma classifier_fails_try: "classifier_fails env cfg bs e \<Longrightarrow> analyze_try env cfg bs = Inl e"
  by (auto simp: classifier_fails_def analyze_try_def split: sum.splits list.splits option.splits)

lemma send_alerts_log:
  "\<exists>r1 r2. log (send_alerts env cfg reason bs w) =
     log w @ [St_warning ''Violation detected! Sending alerts...'',
              Call_send_alert_email alert_subject reason bs,
              Smtp_session (SENDER_EMAIL cfg) (EMAIL_PASSWORD cfg) (RECEIVER_EMAIL cfg)
                alert_subject reason bs,
              r1,
              Call_send_whatsapp_alert (alert_body_whatsapp env reason),
              Twilio_request (TWILIO_ACCOUNT_SID cfg) (TWILIO_AUTH_TOKEN cfg)
                (''whatsapp:'' @ TWILIO_WHATSAPP_NUMBER cfg) (alert_body_whatsapp env reason)
                (''whatsapp:'' @ MY_WHATSAPP_NUMBER cfg),
              r2]
     \<and> is_report r1 \<and> is_report r2"
  by (simp add: send_alerts_def send_alert_email_def send_whatsapp_alert_def Let_def
           split: option.splits)

text \<open>The events of lines 183-202 for a verdict that is a non-empty dict.\<close>

lemma show_result_dict:
  assumes "kvs \<noteq> []"
  shows "\<exists>tl. show_result env cfg al bs (JObj kvs) w = (None, snd (show_result env cfg al bs (JObj kvs) w)) \<and>
     log (snd (show_result env cfg al bs (JObj kvs) w)) = log w @
        [St_subheader (chart @ '' Analysis Complete''), St_columns 2,
         status_event env (dict_get kvs ''mask_detected'' (JBool False)),
         Col_info 2 (''**AI Reason:** '' @
            py_format env (dict_get kvs ''reason'' (JStr ''No reason provided.'')))] @ tl
      \<and> (if \<not> truthy (float_nonzero env) (dict_get kvs ''mask_detected'' (JBool False)) \<and> al
          then \<exists>r1 r2. is_report r1 \<and> is_report r2 \<and>
             tl = [St_warning ''Violation detected! Sending alerts...'',
              Call_send_alert_email alert_subject
                 (dict_get kvs ''reason'' (JStr ''No reason provided.'')) bs,
              Smtp_session (SENDER_EMAIL cfg) (EMAIL_PASSWORD cfg) (RECEIVER_EMAIL cfg) alert_subject
                 (dict_get kvs ''reason'' (JStr ''No reason provided.'')) bs,
              r1,
              Call_send_whatsapp_alert
                 (alert_body_whatsapp env (dict_get kvs ''reason'' (JStr ''No reason provided.''))),
              Twilio_request (TWILIO_ACCOUNT_SID cfg) (TWILIO_AUTH_TOKEN cfg)
                (''whatsapp:'' @ TWILIO_WHATSAPP_NUMBER cfg)
                (alert_body_whatsapp env (dict_get kvs ''reason'' (JStr ''No reason provided.'')))
                (''whatsapp:'' @ MY_WHATSAPP_NUMBER cfg),
              r2]
          else tl = [])"
proof (cases "\<not> truthy (float_nonzero env) (dict_get kvs ''mask_detected'' (JBool False)) \<and> al")
  case True
  let ?reason = "dict_get kvs ''reason'' (JStr ''No reason provided.'')"
  let ?w4 = "emit (Col_info 2 (''**AI Reason:** '' @ py_format env ?reason))
     (emit (Col_error 1 ''**Status:** No Mask Detected (Violation)'')
     (emit (St_columns 2) (emit (St_subheader (chart @ '' Analysis Complete'')) w)))"
  have run: "show_result env cfg al bs (JObj kvs) w = (None, send_alerts env cfg ?reason bs ?w4)"
    using assms True by (simp add: show_result_def py_get_def Let_def)
  show ?thesis
    using True send_alerts_log [of env cfg ?reason bs ?w4]
    unfolding run by (auto simp: status_event_def)
next
  case False
  then show ?thesis using assms
    by (auto simp: show_result_def py_get_def Let_def status_event_def)
qed

lemma analyze_button_faces:
  assumes "detect_faces env image_cv (emit (St_spinner ''Step 1/2: Detecting faces...'') w) = ((b, n), w2)"
    and "0 < n"
  shows "analyze_button env cfg al bs image_cv w =
     show_result env cfg al bs
       (fst (analyze_image_for_mask env cfg bs
          (emit (St_spinner ''Step 2/2: Analyzing for mask with Meta Llama 4...'')
             (emit (St_image (heap w2 ! b)
                (''Face Detection Result: '' @ show_nat n @ '' face(s) found!'')) w2))))
       (snd (analyze_image_for_mask env cfg bs
          (emit (St_spinner ''Step 2/2: Analyzing for mask with Meta Llama 4...'')
             (emit (St_image (heap w2 ! b)
                (''Face Detection Result: '' @ show_nat n @ '' face(s) found!'')) w2))))"
  using assms by (simp add: analyze_button_def Let_def split: prod.splits)

text \<open>The whole run when faces were found and the verdict is a non-empty dict.\<close>

lemma analyze_button_dict:
  assumes d: "detect_faces env image_cv (emit (St_spinner ''Step 1/2: Detecting faces...'') w) = ((b, n), w2)"
    and n: "0 < n"
    and v: "analyze_try env cfg bs = Inr (JObj kvs)"
    and ne: "kvs \<noteq> []"
  shows "fst (analyze_button env cfg al bs image_cv w) = None \<and>
    (\<exists>es tl. list_all is_report es \<and>
      added w (snd (analyze_button env cfg al bs image_cv w)) =
        St_spinner ''Step 1/2: Detecting faces...'' # es @
        [St_image (heap w2 ! b) (''Face Detection Result: '' @ show_nat n @ '' face(s) found!''),
         St_spinner ''Step 2/2: Analyzing for mask with Meta Llama 4...'',
         Call_analyze_image_for_mask bs,
         Groq_request (GROQ_API_KEY cfg) (mask_request env bs),
         St_subheader (chart @ '' Analysis Complete''), St_columns 2,
         status_event env (dict_get kvs ''mask_detected'' (JBool False)),
         Col_info 2 (''**AI Reason:** '' @
            py_format env (dict_get kvs ''reason'' (JStr ''No reason provided.'')))] @ tl
      \<and> (if \<not> truthy (float_nonzero env) (dict_get kvs ''mask_detected'' (JBool False)) \<and> al
          then \<exists>r1 r2. is_report r1 \<and> is_report r2 \<and>
             tl = [St_warning ''Violation detected! Sending alerts...'',
              Call_send_alert_email alert_subject
                 (dict_get kvs ''reason'' (JStr ''No reason provided.'')) bs,
              Smtp_session (SENDER_EMAIL cfg) (EMAIL_PASSWORD cfg) (RECEIVER_EMAIL cfg) alert_subject
                 (dict_get kvs ''reason'' (JStr ''No reason provided.'')) bs,
              r1,
              Call_send_whatsapp_alert
                 (alert_body_whatsapp env (dict_get kvs ''reason'' (JStr ''No reason provided.''))),
              Twilio_request (TWILIO_ACCOUNT_SID cfg) (TWILIO_AUTH_TOKEN cfg)
                (''whatsapp:'' @ TWILIO_WHATSAPP_NUMBER cfg)
                (alert_body_whatsapp env (dict_get kvs ''reason'' (JStr ''No reason provided.'')))
                (''whatsapp:'' @ MY_WHATSAPP_NUMBER cfg),
              r2]
          else tl = []))"
proof -
  let ?w4 = "emit (St_spinner ''Step 2/2: Analyzing for mask with Meta Llama 4...'')
             (emit (St_image (heap w2 ! b)
                (''Face Detection Result: '' @ show_nat n @ '' face(s) found!'')) w2)"
  let ?w5 = "snd (analyze_image_for_mask env cfg bs ?w4)"
  obtain es where es: "log w2 = log w @ St_spinner ''Step 1/2: Detecting faces...'' # es"
      "list_all is_report es"
    using detect_faces_added [OF d] by auto
  have run: "analyze_button env cfg al bs image_cv w = show_result env cfg al bs (JObj kvs) ?w5"
    using analyze_button_faces [OF d n, of cfg al bs] v by (simp add: analyze_value)
  have l5: "log ?w5 = log w @ St_spinner ''Step 1/2: Detecting faces...'' # es @
     [St_image (heap w2 ! b) (''Face Detection Result: '' @ show_nat n @ '' face(s) found!''),
      St_spinner ''Step 2/2: Analyzing for mask with Meta Llama 4...'',
      Call_analyze_image_for_mask bs,
      Groq_request (GROQ_API_KEY cfg) (mask_request env bs)]"
    using es(1) v by (simp add: analyze_log)
  from show_result_dict [OF ne, of env cfg al bs ?w5]
  obtain tl where tl: "show_result env cfg al bs (JObj kvs) ?w5 =
        (None, snd (show_result env cfg al bs (JObj kvs) ?w5))"
     "log (snd (show_result env cfg al bs (JObj kvs) ?w5)) = log ?w5 @
        [St_subheader (chart @ '' Analysis Complete''), St_columns 2,
         status_event env (dict_get kvs ''mask_detected'' (JBool False)),
         Col_info 2 (''**AI Reason:** '' @
            py_format env (dict_get kvs ''reason'' (JStr ''No reason provided.'')))] @ tl"
     "(if \<not> truthy (float_nonzero env) (dict_get kvs ''mask_detected'' (JBool False)) \<and> al
          then \<exists>r1 r2. is_report r1 \<and> is_report r2 \<and>
             tl = [St_warning ''Violation detected! Sending alerts...'',
              Call_send_alert_email alert_subject
                 (dict_get kvs ''reason'' (JStr ''No reason provided.'')) bs,
              Smtp_session (SENDER_EMAIL cfg) (EMAIL_PASSWORD cfg) (RECEIVER_EMAIL cfg) alert_subject
                 (dict_get kvs ''reason'' (JStr ''No reason provided.'')) bs,
              r1,
              Call_send_whatsapp_alert
                 (alert_body_whatsapp env (dict_get kvs ''reason'' (JStr ''No reason provided.''))),
              Twilio_request (TWILIO_ACCOUNT_SID cfg) (TWILIO_AUTH_TOKEN cfg)
                (''whatsapp:'' @ TWILIO_WHATSAPP_NUMBER cfg)
                (alert_body_whatsapp env (dict_get kvs ''reason'' (JStr ''No reason provided.'')))
                (''whatsapp:'' @ MY_WHATSAPP_NUMBER cfg),
              r2]
          else tl = [])"
    by blast
  have none: "fst (analyze_button env cfg al bs image_cv w) = None"
    unfolding run using tl(1) by (metis fst_conv)
  have "added w (snd (analyze_button env cfg al bs image_cv w)) =
        St_spinner ''Step 1/2: Detecting faces...'' # es @
        [St_image (heap w2 ! b) (''Face Detection Result: '' @ show_nat n @ '' face(s) found!''),
         St_spinner ''Step 2/2: Analyzing for mask with Meta Llama 4...'',
         Call_analyze_image_for_mask bs,
         Groq_request (GROQ_API_KEY cfg) (mask_request env bs),
         St_subheader (chart @ '' Analysis Complete''), St_columns 2,
         status_event env (dict_get kvs ''mask_detected'' (JBool False)),
         Col_info 2 (''**AI Reason:** '' @
            py_format env (dict_get kvs ''reason'' (JStr ''No reason provided.'')))] @ tl"
    unfolding run by (rule added_append) (use tl(2) l5 in simp)
  with none es(2) tl(3) show ?thesis by blast
qed

lemma analyze_button_no_faces:
  assumes "detect_faces env image_cv (emit (St_spinner ''Step 1/2: Detecting faces...'') w) = ((b, 0), w2)"
  shows "analyze_button env cfg al bs image_cv w =
           (None, emit (St_image (heap w2 ! b) ''Face Detection Result'')
              (emit (St_warning ''No faces were detected in the image. Cannot proceed with mask analysis.'') w2))"
    and "\<exists>es. list_all is_report es \<and> added w (snd (analyze_button env cfg al bs image_cv w)) =
           St_spinner ''Step 1/2: Detecting faces...'' # es @
           [St_warning ''No faces were detected in the image. Cannot proceed with mask analysis.'',
            St_image (heap w2 ! b) ''Face Detection Result'']"
proof -
  show run: "analyze_button env cfg al bs image_cv w =
           (None, emit (St_image (heap w2 ! b) ''Face Detection Result'')
              (emit (St_warning ''No faces were detected in the image. Cannot proceed with mask analysis.'') w2))"
    using assms by (simp add: analyze_button_def Let_def)
  obtain es where es: "log w2 = log w @ St_spinner ''Step 1/2: Detecting faces...'' # es"
      "list_all is_report es"
    using detect_faces_added [OF assms] by auto
  have "added w (snd (analyze_button env cfg al bs image_cv w)) =
           St_spinner ''Step 1/2: Detecting faces...'' # es @
           [St_warning ''No faces were detected in the image. Cannot proceed with mask analysis.'',
            St_image (heap w2 ! b) ''Face Detection Result'']"
    unfolding run by (rule added_append) (use es(1) in simp)
  with es(2) show "\<exists>es. list_all is_report es \<and> added w (snd (analyze_button env cfg al bs image_cv w)) =
           St_spinner ''Step 1/2: Detecting faces...'' # es @
           [St_warning ''No faces were detected in the image. Cannot proceed with mask analysis.'',
            St_image (heap w2 ! b) ''Face Detection Result'']" by blast
qed



text \<open>Lines 182-202 for any value of \<open>analysis_result\<close>.\<close>

lemma show_result_heap: "heap (snd (show_result env cfg al bs r w)) = heap w"
  by (cases r)
     (auto simp: show_result_def py_get_def send_alerts_def send_alert_email_def
        send_whatsapp_alert_def emit_def Let_def split: option.splits)

lemma show_result_falsy:
  "\<not> truthy (float_nonzero env) r \<Longrightarrow> show_result env cfg al bs r w = (None, w)"
  by (simp add: show_result_def)

lemma show_result_any:
  "\<exists>tl. log (snd (show_result env cfg al bs r w)) = log w @ tl \<and>
     (filter is_sink_call tl = [] \<or> (\<exists>reason. filter is_sink_call tl = alert_calls env cfg reason bs)) \<and>
     list_all (carries_original env bs) tl"
proof (cases "\<exists>kvs. r = JObj kvs \<and> kvs \<noteq> []")
  case True
  then obtain kvs where r: "r = JObj kvs" "kvs \<noteq> []" by blast
  show ?thesis
    using show_result_dict [OF r(2), of env cfg al bs w] unfolding r(1)
    by (auto simp: alert_calls_def status_event_def report_silent split: if_splits)
next
  case False
  then show ?thesis
    by (cases r) (auto simp: show_result_def py_get_def Let_def)
qed

text \<open>Lines 168-202 on any input.\<close>

lemma analyze_button_any:
  "(filter is_sink_call (added w (snd (analyze_button env cfg al bs image_cv w))) = [] \<or>
      (\<exists>reason. filter is_sink_call (added w (snd (analyze_button env cfg al bs image_cv w))) =
          alert_calls env cfg reason bs)) \<and>
     list_all (carries_original env bs) (added w (snd (analyze_button env cfg al bs image_cv w))) \<and>
     log (snd (analyze_button env cfg al bs image_cv w)) =
       log w @ added w (snd (analyze_button env cfg al bs image_cv w))"
proof -
  define sp :: "('a, 'b) event" where "sp = St_spinner ''Step 1/2: Detecting faces...''"
  have sp: "\<not> is_sink_call sp" "carries_original env bs sp"
    by (simp_all add: sp_def)
  obtain b n w2 where d: "detect_faces env image_cv (emit sp w) = ((b, n), w2)"
    by (metis surj_pair)
  obtain es where es: "log w2 = log w @ sp # es" "list_all is_report es"
    using detect_faces_added [OF d] by auto
  note es_s = reports_silent(1) [OF es(2)]
  note es_c = reports_silent(5) [OF es(2), of env bs]
  show ?thesis
  proof (cases "n = 0")
    case True
    define post :: "('a, 'b) event list" where "post =
           [St_warning ''No faces were detected in the image. Cannot proceed with mask analysis.'',
            St_image (heap w2 ! b) ''Face Detection Result'']"
    have post: "filter is_sink_call post = []" "list_all (carries_original env bs) post"
      by (simp_all add: post_def)
    have "snd (analyze_button env cfg al bs image_cv w) =
       emit (St_image (heap w2 ! b) ''Face Detection Result'')
              (emit (St_warning ''No faces were detected in the image. Cannot proceed with mask analysis.'') w2)"
      using analyze_button_no_faces(1) [OF d [unfolded True sp_def], of cfg al bs] by simp
    then have l: "log (snd (analyze_button env cfg al bs image_cv w)) = log w @ sp # es @ post"
      using es(1) by (simp add: post_def)
    then have a: "added w (snd (analyze_button env cfg al bs image_cv w)) = sp # es @ post"
      by (rule added_append)
    show ?thesis unfolding a l using es_s es_c post sp by simp
  next
    case False
    then have n: "0 < n" by simp
    define w4 where "w4 = emit (St_spinner ''Step 2/2: Analyzing for mask with Meta Llama 4...'')
             (emit (St_image (heap w2 ! b)
                (''Face Detection Result: '' @ show_nat n @ '' face(s) found!'')) w2)"
    define r where "r = fst (analyze_image_for_mask env cfg bs w4)"
    define w5 where "w5 = snd (analyze_image_for_mask env cfg bs w4)"
    define mid :: "('a, 'b) event list" where "mid =
       [St_image (heap w2 ! b) (''Face Detection Result: '' @ show_nat n @ '' face(s) found!''),
        St_spinner ''Step 2/2: Analyzing for mask with Meta Llama 4...'',
        Call_analyze_image_for_mask bs,
        Groq_request (GROQ_API_KEY cfg) (mask_request env bs)]"
    define rep :: "('a, 'b) event list" where "rep =
       (case analyze_try env cfg bs of
          Inr v \<Rightarrow> []
        | Inl e \<Rightarrow> [St_error (''Groq API Error: '' @ exn_str e)])"
    have mid: "filter is_sink_call mid = []" "list_all (carries_original env bs) mid"
      by (simp_all add: mid_def)
    have run: "analyze_button env cfg al bs image_cv w = show_result env cfg al bs r w5"
      unfolding r_def w5_def w4_def by (rule analyze_button_faces [OF d [unfolded sp_def] n])
    have l5: "log w5 = log w @ sp # es @ mid @ rep"
      unfolding w5_def analyze_log using es(1) by (simp add: w4_def mid_def rep_def)
    have rp: "list_all is_report rep"
      by (simp add: rep_def split: sum.splits)
    note rep_s = reports_silent(1) [OF rp]
    note rep_c = reports_silent(5) [OF rp, of env bs]
    obtain tl where tl: "log (snd (show_result env cfg al bs r w5)) = log w5 @ tl"
      "filter is_sink_call tl = [] \<or> (\<exists>reason. filter is_sink_call tl = alert_calls env cfg reason bs)"
      "list_all (carries_original env bs) tl"
      using show_result_any [of env cfg al bs r w5] by blast
    have l: "log (snd (analyze_button env cfg al bs image_cv w)) = log w @ sp # es @ mid @ rep @ tl"
      unfolding run tl(1) l5 by simp
    then have a: "added w (snd (analyze_button env cfg al bs image_cv w)) = sp # es @ mid @ rep @ tl"
      by (rule added_append)
    have s: "filter is_sink_call (sp # es @ mid @ rep @ tl) = filter is_sink_call tl"
      using es_s mid(1) rep_s sp(1) by simp
    have c: "list_all (carries_original env bs) (sp # es @ mid @ rep @ tl)"
      using es_c mid(2) rep_c tl(3) sp(2) by simp
    show ?thesis unfolding a l s using tl(2) c by simp
  qed
qed

lemma draw_boxes_draw_all:
  "b < length h \<Longrightarrow>
   (case draw_all env (h ! b) faces of
      Inl e \<Rightarrow> fst (draw_boxes env b faces h) = Some e
    | Inr img \<Rightarrow> draw_boxes env b faces h = (None, h[b := img]))"
proof (induction env b faces h rule: draw_boxes.induct)
  case (1 env b h)
  then show ?case by simp
next
  case (2 env b x y w ht faces h)
  then show ?case
    by (cases "cv_rectangle env (h ! b) (x, y) (x + w, y + ht) (255, 0, 0) 2")
       (auto split: sum.splits)
qed

lemma draw_boxes_take: "take b (snd (draw_boxes env b faces h)) = take b h"
  by (induction env b faces h rule: draw_boxes.induct) (auto split: sum.splits)

lemma detect_faces_take:
  "take (length (heap w)) (heap (snd (detect_faces env a w))) = heap w"
proof (cases "cv_detect env (heap w ! a)")
  case (Inl e)
  then show ?thesis by (simp add: detect_faces_def detect_except_result)
next
  case (Inr faces)
  obtain r h2 where db: "draw_boxes env (length (heap w)) faces (heap w @ [heap w ! a]) = (r, h2)"
    by (cases "draw_boxes env (length (heap w)) faces (heap w @ [heap w ! a])") simp
  have "take (length (heap w)) h2 = heap w"
    using draw_boxes_take [of "length (heap w)" env faces "heap w @ [heap w ! a]"] db by simp
  then show ?thesis
    using Inr db by (cases r) (simp_all add: detect_faces_def detect_except_result Let_def)
qed

lemma detect_faces_result:
  "(case cv_detect env (heap w ! a) of
      Inl e \<Rightarrow> fst (detect_faces env a w) = (a, 0)
    | Inr faces \<Rightarrow>
        (case draw_all env (heap w ! a) faces of
           Inl e \<Rightarrow> fst (detect_faces env a w) = (a, 0)
         | Inr img \<Rightarrow> fst (detect_faces env a w) = (length (heap w), length faces) \<and>
                      heap (snd (detect_faces env a w)) = heap w @ [img]))"
proof (cases "cv_detect env (heap w ! a)")
  case (Inl e)
  then show ?thesis by (simp add: detect_faces_def detect_except_result)
next
  case (Inr faces)
  have b: "length (heap w) < length (heap w @ [heap w ! a])" by simp
  have nth: "(heap w @ [heap w ! a]) ! length (heap w) = heap w ! a" by simp
  show ?thesis
  proof (cases "draw_all env (heap w ! a) faces")
    case (Inl e)
    then have "fst (draw_boxes env (length (heap w)) faces (heap w @ [heap w ! a])) = Some e"
      using draw_boxes_draw_all [OF b, of env faces] by (simp add: nth)
    then obtain h2 where "draw_boxes env (length (heap w)) faces (heap w @ [heap w ! a]) = (Some e, h2)"
      by (cases "draw_boxes env (length (heap w)) faces (heap w @ [heap w ! a])") simp
    then show ?thesis
      using Inr Inl by (simp add: detect_faces_def detect_except_result Let_def)
  next
    case (Inr img)
    then have "draw_boxes env (length (heap w)) faces (heap w @ [heap w ! a]) =
        (None, (heap w @ [heap w ! a])[length (heap w) := img])"
      using draw_boxes_draw_all [OF b, of env faces] by (simp add: nth)
    then show ?thesis
      using \<open>cv_detect env (heap w ! a) = Inr faces\<close> Inr
      by (simp add: detect_faces_def Let_def)
  qed
qed

lemma detect_faces_fails:
  assumes "detection_fails env a (heap w) e"
  shows "detect_faces env a w = ((a, 0), snd (detect_faces env a w))"
    and "log (snd (detect_faces env a w)) = log w @
       [St_error (if exn_class e = FileNotFoundError
          then ''haarcascade_frontalface_default.xml not found. Please download it.''
          else ''Face detection error: '' @ exn_str e)]"
proof -
  show "detect_faces env a w = ((a, 0), snd (detect_faces env a w))"
  proof (cases "cv_detect env (heap w ! a)")
    case (Inl e')
    then show ?thesis by (simp add: detect_faces_def detect_except_result)
  next
    case (Inr faces)
    then have "fst (draw_boxes env (length (heap w)) faces (heap w @ [heap w ! a])) = Some e"
      using assms by (simp add: detection_fails_def)
    then obtain h2 where "draw_boxes env (length (heap w)) faces (heap w @ [heap w ! a]) = (Some e, h2)"
      by (cases "draw_boxes env (length (heap w)) faces (heap w @ [heap w ! a])") simp
    then show ?thesis using Inr by (simp add: detect_faces_def detect_except_result Let_def)
  qed
  show "log (snd (detect_faces env a w)) = log w @
       [St_error (if exn_class e = FileNotFoundError
          then ''haarcascade_frontalface_default.xml not found. Please download it.''
          else ''Face detection error: '' @ exn_str e)]"
  proof (cases "cv_detect env (heap w ! a)")
    case (Inl e')
    then show ?thesis using assms
      by (simp add: detect_faces_def detect_except_result detection_fails_def)
  next
    case (Inr faces)
    then have "fst (draw_boxes env (length (heap w)) faces (heap w @ [heap w ! a])) = Some e"
      using assms by (simp add: detection_fails_def)
    then obtain h2 where "draw_boxes env (length (heap w)) faces (heap w @ [heap w ! a]) = (Some e, h2)"
      by (cases "draw_boxes env (length (heap w)) faces (heap w @ [heap w ! a])") simp
    then show ?thesis using Inr by (simp add: detect_faces_def detect_except_result Let_def)
  qed
qed

lemma analyze_heap: "heap (snd (analyze_image_for_mask env cfg bs w)) = heap w"
  by (simp add: analyze_image_for_mask_def Let_def split: sum.splits)

lemma detect_faces_emit:
  "fst (detect_faces env a (emit ev w)) = fst (detect_faces env a w) \<and>
   heap (snd (detect_faces env a (emit ev w))) = heap (snd (detect_faces env a w))"
proof (cases "cv_detect env (heap w ! a)")
  case (Inl e)
  then show ?thesis by (simp add: detect_faces_def detect_except_result)
next
  case (Inr faces)
  obtain r h2 where db: "draw_boxes env (length (heap w)) faces (heap w @ [heap w ! a]) = (r, h2)"
    by (cases "draw_boxes env (length (heap w)) faces (heap w @ [heap w ! a])") simp
  show ?thesis
    using Inr db by (cases r) (simp_all add: detect_faces_def detect_except_result Let_def)
qed

lemma analyze_button_heap:
  "heap (snd (analyze_button env cfg al bs image_cv w)) = heap (snd (detect_faces env image_cv w))"
proof -
  obtain b n w2 where d:
    "detect_faces env image_cv (emit (St_spinner ''Step 1/2: Detecting faces...'') w) = ((b, n), w2)"
    by (cases "detect_faces env image_cv (emit (St_spinner ''Step 1/2: Detecting faces...'') w)") auto
  have h2: "heap w2 = heap (snd (detect_faces env image_cv w))"
    using detect_faces_emit [of env image_cv "St_spinner ''Step 1/2: Detecting faces...''" w] d by simp
  show ?thesis
  proof (cases "n = 0")
    case True
    then show ?thesis
      using analyze_button_no_faces(1) [OF d [unfolded True], of cfg al bs] h2 by simp
  next
    case False
    then have n: "0 < n" by simp
    show ?thesis
      unfolding analyze_button_faces [OF d n] show_result_heap analyze_heap using h2 by simp
  qed
qed

lemma faces_found:
  obtains b w2 where
    "detect_faces env image_cv (emit (St_spinner ''Step 1/2: Detecting faces...'') w) =
       ((b, snd (fst (detect_faces env image_cv w))), w2)"
proof -
  have "snd (fst (detect_faces env image_cv (emit (St_spinner ''Step 1/2: Detecting faces...'') w))) =
      snd (fst (detect_faces env image_cv w))"
    using detect_faces_emit [of env image_cv "St_spinner ''Step 1/2: Detecting faces...''" w] by simp
  then show ?thesis
    using that
    by (cases "detect_faces env image_cv (emit (St_spinner ''Step 1/2: Detecting faces...'') w)") auto
qed

text \<open>The run of the button when faces were found and the verdict is a non-empty dict: what
  comes before the status line shows no status, no reason and calls no sink.\<close>

lemma button_dict:
  assumes n: "0 < snd (fst (detect_faces env image_cv w))"
    and v: "analyze_try env cfg bs = Inr (JObj kvs)"
    and ne: "kvs \<noteq> []"
  shows "fst (analyze_button env cfg al bs image_cv w) = None \<and>
    (\<exists>pre tl. filter is_sink_call pre = [] \<and> filter is_status pre = [] \<and>
      filter is_reason_use pre = [] \<and>
      added w (snd (analyze_button env cfg al bs image_cv w)) =
        pre @
        [status_event env (dict_get kvs ''mask_detected'' (JBool False)),
         Col_info 2 (''**AI Reason:** '' @
            py_format env (dict_get kvs ''reason'' (JStr ''No reason provided.'')))] @ tl
      \<and> (if \<not> truthy (float_nonzero env) (dict_get kvs ''mask_detected'' (JBool False)) \<and> al
          then \<exists>r1 r2. is_report r1 \<and> is_report r2 \<and>
             tl = [St_warning ''Violation detected! Sending alerts...'',
              Call_send_alert_email alert_subject
                 (dict_get kvs ''reason'' (JStr ''No reason provided.'')) bs,
              Smtp_session (SENDER_EMAIL cfg) (EMAIL_PASSWORD cfg) (RECEIVER_EMAIL cfg) alert_subject
                 (dict_get kvs ''reason'' (JStr ''No reason provided.'')) bs,
              r1,
              Call_send_whatsapp_alert
                 (alert_body_whatsapp env (dict_get kvs ''reason'' (JStr ''No reason provided.''))),
              Twilio_request (TWILIO_ACCOUNT_SID cfg) (TWILIO_AUTH_TOKEN cfg)
                (''whatsapp:'' @ TWILIO_WHATSAPP_NUMBER cfg)
                (alert_body_whatsapp env (dict_get kvs ''reason'' (JStr ''No reason provided.'')))
                (''whatsapp:'' @ MY_WHATSAPP_NUMBER cfg),
              r2]
          else tl = []))"
proof -
  obtain b w2 where d:
    "detect_faces env image_cv (emit (St_spinner ''Step 1/2: Detecting faces...'') w) =
       ((b, snd (fst (detect_faces env image_cv w))), w2)"
    by (rule faces_found)
  from analyze_button_dict [OF d n v ne, of al]
  obtain es tl where run: "fst (analyze_button env cfg al bs image_cv w) = None"
    and es: "list_all is_report es"
    and a: "added w (snd (analyze_button env cfg al bs image_cv w)) =
        St_spinner ''Step 1/2: Detecting faces...'' # es @
        [St_image (heap w2 ! b) (''Face Detection Result: '' @
            show_nat (snd (fst (detect_faces env image_cv w))) @ '' face(s) found!''),
         St_spinner ''Step 2/2: Analyzing for mask with Meta Llama 4...'',
         Call_analyze_image_for_mask bs,
         Groq_request (GROQ_API_KEY cfg) (mask_request env bs),
         St_subheader (chart @ '' Analysis Complete''), St_columns 2,
         status_event env (dict_get kvs ''mask_detected'' (JBool False)),
         Col_info 2 (''**AI Reason:** '' @
            py_format env (dict_get kvs ''reason'' (JStr ''No reason provided.'')))] @ tl"
    and tl: "(if \<not> truthy (float_nonzero env) (dict_get kvs ''mask_detected'' (JBool False)) \<and> al
          then \<exists>r1 r2. is_report r1 \<and> is_report r2 \<and>
             tl = [St_warning ''Violation detected! Sending alerts...'',
              Call_send_alert_email alert_subject
                 (dict_get kvs ''reason'' (JStr ''No reason provided.'')) bs,
              Smtp_session (SENDER_EMAIL cfg) (EMAIL_PASSWORD cfg) (RECEIVER_EMAIL cfg) alert_subject
                 (dict_get kvs ''reason'' (JStr ''No reason provided.'')) bs,
              r1,
              Call_send_whatsapp_alert
                 (alert_body_whatsapp env (dict_get kvs ''reason'' (JStr ''No reason provided.''))),
              Twilio_request (TWILIO_ACCOUNT_SID cfg) (TWILIO_AUTH_TOKEN cfg)
                (''whatsapp:'' @ TWILIO_WHATSAPP_NUMBER cfg)
                (alert_body_whatsapp env (dict_get kvs ''reason'' (JStr ''No reason provided.'')))
                (''whatsapp:'' @ MY_WHATSAPP_NUMBER cfg),
              r2]
          else tl = [])"
    by blast
  define pre where "pre = St_spinner ''Step 1/2: Detecting faces...'' # es @
        [St_image (heap w2 ! b) (''Face Detection Result: '' @
            show_nat (snd (fst (detect_faces env image_cv w))) @ '' face(s) found!''),
         St_spinner ''Step 2/2: Analyzing for mask with Meta Llama 4...'',
         Call_analyze_image_for_mask bs,
         Groq_request (GROQ_API_KEY cfg) (mask_request env bs),
         St_subheader (chart @ '' Analysis Complete''), St_columns 2]"
  have pre: "filter is_sink_call pre = []" "filter is_status pre = []" "filter is_reason_use pre = []"
    using reports_silent(1,3,4) [OF es] by (simp_all add: pre_def)
  have a': "added w (snd (analyze_button env cfg al bs image_cv w)) =
        pre @
        [status_event env (dict_get kvs ''mask_detected'' (JBool False)),
         Col_info 2 (''**AI Reason:** '' @
            py_format env (dict_get kvs ''reason'' (JStr ''No reason provided.'')))] @ tl"
    unfolding a pre_def by simp
  show ?thesis using run pre a' tl by blast
qed

text \<open>The run of the button when the classifier returns nothing, or a falsy value.\<close>

lemma show_nothing:
  assumes "\<not> truthy (float_nonzero env) (case analyze_try env cfg bs of Inr v \<Rightarrow> v | Inl e \<Rightarrow> JNull)"
  shows "fst (analyze_button env cfg al bs image_cv w) = None \<and>
     filter is_sink_call (added w (snd (analyze_button env cfg al bs image_cv w))) = [] \<and>
     filter is_status (added w (snd (analyze_button env cfg al bs image_cv w))) = []"
proof -
  define sp :: "('a, 'b) event" where "sp = St_spinner ''Step 1/2: Detecting faces...''"
  obtain b n w2 where d: "detect_faces env image_cv (emit sp w) = ((b, n), w2)"
    by (cases "detect_faces env image_cv (emit sp w)") auto
  show ?thesis
  proof (cases "n = 0")
    case True
    obtain es where es: "list_all is_report es"
      "added w (snd (analyze_button env cfg al bs image_cv w)) =
         St_spinner ''Step 1/2: Detecting faces...'' # es @
         [St_warning ''No faces were detected in the image. Cannot proceed with mask analysis.'',
          St_image (heap w2 ! b) ''Face Detection Result'']"
      using analyze_button_no_faces(2) [OF d [unfolded True sp_def], of cfg al bs] by blast
    have run: "fst (analyze_button env cfg al bs image_cv w) = None"
      using analyze_button_no_faces(1) [OF d [unfolded True sp_def], of cfg al bs] by simp
    show ?thesis
      unfolding es(2) using run reports_silent(1,3) [OF es(1)] by simp
  next
    case False
    then have n: "0 < n" by simp
    define w4 where "w4 = emit (St_spinner ''Step 2/2: Analyzing for mask with Meta Llama 4...'')
             (emit (St_image (heap w2 ! b)
                (''Face Detection Result: '' @ show_nat n @ '' face(s) found!'')) w2)"
    define w5 where "w5 = snd (analyze_image_for_mask env cfg bs w4)"
    define mid :: "('a, 'b) event list" where "mid =
       [St_image (heap w2 ! b) (''Face Detection Result: '' @ show_nat n @ '' face(s) found!''),
        St_spinner ''Step 2/2: Analyzing for mask with Meta Llama 4...'',
        Call_analyze_image_for_mask bs,
        Groq_request (GROQ_API_KEY cfg) (mask_request env bs)]"
    define rep :: "('a, 'b) event list" where "rep =
       (case analyze_try env cfg bs of
          Inr v \<Rightarrow> []
        | Inl e \<Rightarrow> [St_error (''Groq API Error: '' @ exn_str e)])"
    obtain es where es: "log w2 = log w @ sp # es" "list_all is_report es"
      using detect_faces_added [OF d] by auto
    have mid: "filter is_sink_call mid = []" "filter is_status mid = []"
      by (simp_all add: mid_def)
    have sp: "\<not> is_sink_call sp" "\<not> is_status sp"
      by (simp_all add: sp_def)
    have rp: "list_all is_report rep"
      by (simp add: rep_def split: sum.splits)
    have "analyze_button env cfg al bs image_cv w =
        show_result env cfg al bs (fst (analyze_image_for_mask env cfg bs w4)) w5"
      unfolding w5_def w4_def by (rule analyze_button_faces [OF d [unfolded sp_def] n])
    then have run: "analyze_button env cfg al bs image_cv w = (None, w5)"
      using assms by (simp add: analyze_value show_result_falsy)
    have l5: "log w5 = log w @ sp # es @ mid @ rep"
      unfolding w5_def analyze_log using es(1) by (simp add: w4_def mid_def rep_def)
    have a: "added w (snd (analyze_button env cfg al bs image_cv w)) = sp # es @ mid @ rep"
      unfolding run by (rule added_append) (use l5 in simp)
    show ?thesis
      unfolding a using run sp mid reports_silent(1,3) [OF es(2)] reports_silent(1,3) [OF rp]
      by simp
  qed
qed

text \<open>What the texts of the alerts contain.\<close>

lemma body_has_reason: "sublist s (alert_body_whatsapp env (JStr s))"
proof -
  have "alert_body_whatsapp env (JStr s) =
      (siren @ '' *ALERT: Face Mask Violation!* '' @ siren @ [nl, nl] @ ''*Reason:* '') @ s @ []"
    by (simp add: alert_body_whatsapp_def py_format_def)
  then show ?thesis by (metis sublist_appendI)
qed

lemma body_has_violation: "sublist ''Mask Violation'' (alert_body_whatsapp env reason)"
proof -
  have "alert_body_whatsapp env reason =
      (siren @ '' *ALERT: Face '') @ ''Mask Violation'' @
      (''!* '' @ siren @ [nl, nl] @ ''*Reason:* '' @ py_format env reason)"
    by (simp add: alert_body_whatsapp_def)
  then show ?thesis by (metis sublist_appendI)
qed

lemma subject_has_violation: "sublist ''Mask Violation'' alert_subject"
proof -
  have "alert_subject = ''ALERT: Face '' @ ''Mask Violation'' @ '' Detected!''"
    by (simp add: alert_subject_def)
  then show ?thesis by (metis sublist_appendI)
qed

section \<open>The pipeline\<close>

text \<open>
  C2. When the face detector reports zero faces, the script shows the warning and the
  picture and ends: the classifier is not called (neither the function nor the request
  to the model), no alert function and no alert service is called, and no exception
  leaves the script.
\<close>

theorem no_faces_stops:
  assumes "snd (fst (detect_faces env image_cv w)) = 0"
  shows "fst (analyze_button env cfg alerts_enabled image_bytes image_cv w) = None \<and>
     filter is_classifier_call
       (added w (snd (analyze_button env cfg alerts_enabled image_bytes image_cv w))) = [] \<and>
     filter is_sink_call
       (added w (snd (analyze_button env cfg alerts_enabled image_bytes image_cv w))) = [] \<and>
     (\<exists>es img. list_all is_report es \<and>
        added w (snd (analyze_button env cfg alerts_enabled image_bytes image_cv w)) =
          St_spinner ''Step 1/2: Detecting faces...'' # es @
          [St_warning ''No faces were detected in the image. Cannot proceed with mask analysis.'',
           St_image img ''Face Detection Result''])"
proof -
  obtain b w2 where d:
    "detect_faces env image_cv (emit (St_spinner ''Step 1/2: Detecting faces...'') w) = ((b, 0), w2)"
    using faces_found [of env image_cv w] assms by metis
  obtain es where es: "list_all is_report es"
    "added w (snd (analyze_button env cfg alerts_enabled image_bytes image_cv w)) =
       St_spinner ''Step 1/2: Detecting faces...'' # es @
       [St_warning ''No faces were detected in the image. Cannot proceed with mask analysis.'',
        St_image (heap w2 ! b) ''Face Detection Result'']"
    using analyze_button_no_faces(2) [OF d, of cfg alerts_enabled image_bytes] by blast
  have run: "fst (analyze_button env cfg alerts_enabled image_bytes image_cv w) = None"
    using analyze_button_no_faces(1) [OF d, of cfg alerts_enabled image_bytes] by simp
  have c: "filter is_classifier_call
       (added w (snd (analyze_button env cfg alerts_enabled image_bytes image_cv w))) = []"
    unfolding es(2) using reports_silent(2) [OF es(1)] by simp
  have s: "filter is_sink_call
       (added w (snd (analyze_button env cfg alerts_enabled image_bytes image_cv w))) = []"
    unfolding es(2) using reports_silent(1) [OF es(1)] by simp
  show ?thesis using run c s es by blast
qed

theorem no_faces_stops_witness:
  "snd (fst (detect_faces env_no_faces 0 fixed_world)) = 0 \<and>
   fst (analyze_button env_no_faces fixed_cfg True ''img'' 0 fixed_world) = None \<and>
   filter is_classifier_call
     (added fixed_world (snd (analyze_button env_no_faces fixed_cfg True ''img'' 0 fixed_world))) = [] \<and>
   filter is_sink_call
     (added fixed_world (snd (analyze_button env_no_faces fixed_cfg True ''img'' 0 fixed_world))) = []"
proof -
  have h: "snd (fst (detect_faces env_no_faces 0 fixed_world)) = 0"
    by (simp add: detect_faces_def env_no_faces_def fixed_env_def fixed_world_def Let_def)
  show ?thesis
    using h no_faces_stops [OF h, of fixed_cfg True "''img''"] by simp
qed

text \<open>
  C3. With at least one face, a verdict whose \<open>mask_detected\<close> is \<open>false\<close> and alerts
  enabled, \<open>send_alert_email\<close> and \<open>send_whatsapp_alert\<close> are each called exactly once,
  each makes its one request, whatever the outcome of the other: the statement holds for
  every environment, so also when the mail or the messaging service raises.
\<close>

theorem violation_alerts_both_sinks:
  assumes "0 < snd (fst (detect_faces env image_cv w))"
    and "analyze_try env cfg image_bytes = Inr (JObj kvs)"
    and "map_of kvs ''mask_detected'' = Some (JBool False)"
  shows "fst (analyze_button env cfg True image_bytes image_cv w) = None \<and>
     filter is_sink_call (added w (snd (analyze_button env cfg True image_bytes image_cv w))) =
       [Call_send_alert_email ''ALERT: Face Mask Violation Detected!''
          (dict_get kvs ''reason'' (JStr ''No reason provided.'')) image_bytes,
        Smtp_session (SENDER_EMAIL cfg) (EMAIL_PASSWORD cfg) (RECEIVER_EMAIL cfg)
          ''ALERT: Face Mask Violation Detected!''
          (dict_get kvs ''reason'' (JStr ''No reason provided.'')) image_bytes,
        Call_send_whatsapp_alert
          (alert_body_whatsapp env (dict_get kvs ''reason'' (JStr ''No reason provided.''))),
        Twilio_request (TWILIO_ACCOUNT_SID cfg) (TWILIO_AUTH_TOKEN cfg)
          (''whatsapp:'' @ TWILIO_WHATSAPP_NUMBER cfg)
          (alert_body_whatsapp env (dict_get kvs ''reason'' (JStr ''No reason provided.'')))
          (''whatsapp:'' @ MY_WHATSAPP_NUMBER cfg)]"
proof -
  have ne: "kvs \<noteq> []" using assms(3) by auto
  have m: "dict_get kvs ''mask_detected'' (JBool False) = JBool False"
    using assms(3) by (simp add: dict_get_def)
  show ?thesis
    using button_dict [OF assms(1,2) ne, of True]
    by (auto simp: m status_event_def report_silent alert_subject_def)
qed

theorem violation_alerts_both_sinks_witness:
  "0 < snd (fst (detect_faces env_smtp_down 0 fixed_world)) \<and>
   analyze_try env_smtp_down fixed_cfg ''img'' = Inr scenario_verdict \<and>
   smtp_deliver env_smtp_down ''s@x'' ''p'' ''r@x'' ''ALERT: Face Mask Violation Detected!''
      (JStr ''visible nose and mouth'') ''img'' = Some (Exn OtherError ''smtp down'') \<and>
   filter is_sink_call
     (added fixed_world (snd (analyze_button env_smtp_down fixed_cfg True ''img'' 0 fixed_world))) =
       [Call_send_alert_email ''ALERT: Face Mask Violation Detected!''
          (JStr ''visible nose and mouth'') ''img'',
        Smtp_session ''s@x'' ''p'' ''r@x'' ''ALERT: Face Mask Violation Detected!''
          (JStr ''visible nose and mouth'') ''img'',
        Call_send_whatsapp_alert
          (alert_body_whatsapp env_smtp_down (JStr ''visible nose and mouth'')),
        Twilio_request ''sid'' ''tok'' ''whatsapp:+1''
          (alert_body_whatsapp env_smtp_down (JStr ''visible nose and mouth'')) ''whatsapp:+2'']"
proof -
  have d: "0 < snd (fst (detect_faces env_smtp_down 0 fixed_world))"
    by (simp add: detect_faces_def env_smtp_down_def fixed_env_def fixed_world_def two_faces_def Let_def)
  have v: "analyze_try env_smtp_down fixed_cfg ''img'' =
      Inr (JObj [(''mask_detected'', JBool False), (''reason'', JStr ''visible nose and mouth'')])"
    by (simp add: analyze_try_def env_smtp_down_def fixed_env_def scenario_verdict_def)
  have k: "map_of [(''mask_detected'', JBool False), (''reason'', JStr ''visible nose and mouth'')]
      ''mask_detected'' = Some (JBool False :: unit json)"
    by simp
  have s: "smtp_deliver env_smtp_down ''s@x'' ''p'' ''r@x'' ''ALERT: Face Mask Violation Detected!''
      (JStr ''visible nose and mouth'') ''img'' = Some (Exn OtherError ''smtp down'')"
    by (simp add: env_smtp_down_def fixed_env_def)
  show ?thesis
    using d v s violation_alerts_both_sinks [OF d v k]
    by (simp add: dict_get_def fixed_cfg_def scenario_verdict_def)
qed

text \<open>
  C5. With at least one face and a verdict whose \<open>mask_detected\<close> is \<open>false\<close>, when alerts
  are disabled no alert function and no alert service is called, and the one status line
  shown is the violation, not "Mask Detected".
\<close>

theorem violation_alerts_disabled:
  assumes "0 < snd (fst (detect_faces env image_cv w))"
    and "analyze_try env cfg image_bytes = Inr (JObj kvs)"
    and "map_of kvs ''mask_detected'' = Some (JBool False)"
  shows "fst (analyze_button env cfg False image_bytes image_cv w) = None \<and>
     filter is_sink_call (added w (snd (analyze_button env cfg False image_bytes image_cv w))) = [] \<and>
     filter is_status (added w (snd (analyze_button env cfg False image_bytes image_cv w))) =
       [Col_error 1 ''**Status:** No Mask Detected (Violation)'']"
proof -
  have ne: "kvs \<noteq> []" using assms(3) by auto
  have m: "dict_get kvs ''mask_detected'' (JBool False) = JBool False"
    using assms(3) by (simp add: dict_get_def)
  show ?thesis
    using button_dict [OF assms(1,2) ne, of False]
    by (auto simp: m status_event_def)
qed

theorem violation_alerts_disabled_witness:
  "0 < snd (fst (detect_faces env_scenario 0 fixed_world)) \<and>
   analyze_try env_scenario fixed_cfg ''img'' = Inr scenario_verdict \<and>
   filter is_sink_call
     (added fixed_world (snd (analyze_button env_scenario fixed_cfg False ''img'' 0 fixed_world))) = [] \<and>
   filter is_status
     (added fixed_world (snd (analyze_button env_scenario fixed_cfg False ''img'' 0 fixed_world))) =
       [Col_error 1 ''**Status:** No Mask Detected (Violation)'']"
proof -
  have d: "0 < snd (fst (detect_faces env_scenario 0 fixed_world))"
    by (simp add: detect_faces_def env_scenario_def fixed_env_def fixed_world_def two_faces_def Let_def)
  have v: "analyze_try env_scenario fixed_cfg ''img'' =
      Inr (JObj [(''mask_detected'', JBool False), (''reason'', JStr ''visible nose and mouth'')])"
    by (simp add: analyze_try_def env_scenario_def fixed_env_def scenario_verdict_def)
  have k: "map_of [(''mask_detected'', JBool False), (''reason'', JStr ''visible nose and mouth'')]
      ''mask_detected'' = Some (JBool False :: unit json)"
    by simp
  show ?thesis
    using d v violation_alerts_disabled [OF d v k]
    by (simp add: scenario_verdict_def)
qed

text \<open>
  C6. The scenario: faces found, the verdict
  \<open>{"mask_detected": false, "reason": "visible nose and mouth"}\<close>, alerts enabled. Each
  sink is called once; the subject of the mail and the body of the message contain
  "Mask Violation", the body of the mail is the reason and the body of the message ends
  with it; the run ends with the warning that alerts are sent, the two calls and what
  each of them reports.
\<close>

theorem mask_violation_scenario:
  assumes "0 < snd (fst (detect_faces env image_cv w))"
    and "analyze_try env cfg image_bytes =
      Inr (JObj [(''mask_detected'', JBool False), (''reason'', JStr ''visible nose and mouth'')])"
  shows "fst (analyze_button env cfg True image_bytes image_cv w) = None \<and>
     filter is_sink_call (added w (snd (analyze_button env cfg True image_bytes image_cv w))) =
       [Call_send_alert_email alert_subject (JStr ''visible nose and mouth'') image_bytes,
        Smtp_session (SENDER_EMAIL cfg) (EMAIL_PASSWORD cfg) (RECEIVER_EMAIL cfg)
          alert_subject (JStr ''visible nose and mouth'') image_bytes,
        Call_send_whatsapp_alert (alert_body_whatsapp env (JStr ''visible nose and mouth'')),
        Twilio_request (TWILIO_ACCOUNT_SID cfg) (TWILIO_AUTH_TOKEN cfg)
          (''whatsapp:'' @ TWILIO_WHATSAPP_NUMBER cfg)
          (alert_body_whatsapp env (JStr ''visible nose and mouth''))
          (''whatsapp:'' @ MY_WHATSAPP_NUMBER cfg)] \<and>
     alert_subject = ''ALERT: Face Mask Violation Detected!'' \<and>
     alert_body_whatsapp env (JStr ''visible nose and mouth'') =
       siren @ '' *ALERT: Face Mask Violation!* '' @ siren @ [nl, nl] @
       ''*Reason:* visible nose and mouth'' \<and>
     sublist ''Mask Violation'' alert_subject \<and>
     sublist ''Mask Violation'' (alert_body_whatsapp env (JStr ''visible nose and mouth'')) \<and>
     sublist ''visible nose and mouth'' (alert_body_whatsapp env (JStr ''visible nose and mouth'')) \<and>
     (\<exists>pre r1 r2. is_report r1 \<and> is_report r2 \<and>
        added w (snd (analyze_button env cfg True image_bytes image_cv w)) =
          pre @
          [St_warning ''Violation detected! Sending alerts...'',
           Call_send_alert_email alert_subject (JStr ''visible nose and mouth'') image_bytes,
           Smtp_session (SENDER_EMAIL cfg) (EMAIL_PASSWORD cfg) (RECEIVER_EMAIL cfg)
             alert_subject (JStr ''visible nose and mouth'') image_bytes,
           r1,
           Call_send_whatsapp_alert (alert_body_whatsapp env (JStr ''visible nose and mouth'')),
           Twilio_request (TWILIO_ACCOUNT_SID cfg) (TWILIO_AUTH_TOKEN cfg)
             (''whatsapp:'' @ TWILIO_WHATSAPP_NUMBER cfg)
             (alert_body_whatsapp env (JStr ''visible nose and mouth''))
             (''whatsapp:'' @ MY_WHATSAPP_NUMBER cfg),
           r2])"
proof -
  define kvs :: "(string \<times> 'a json) list" where
    "kvs = [(''mask_detected'', JBool False), (''reason'', JStr ''visible nose and mouth'')]"
  have ne: "kvs \<noteq> []" by (simp add: kvs_def)
  have m: "dict_get kvs ''mask_detected'' (JBool False) = JBool False"
    by (simp add: dict_get_def kvs_def)
  have r: "dict_get kvs ''reason'' (JStr ''No reason provided.'') = JStr ''visible nose and mouth''"
    by (simp add: dict_get_def kvs_def)
  have v: "analyze_try env cfg image_bytes = Inr (JObj kvs)"
    using assms(2) by (simp add: kvs_def)
  from button_dict [OF assms(1) v ne, of True]
  obtain pre r1 r2 where run: "fst (analyze_button env cfg True image_bytes image_cv w) = None"
    and pre: "filter is_sink_call pre = []"
    and rep: "is_report r1" "is_report r2"
    and a: "added w (snd (analyze_button env cfg True image_bytes image_cv w)) =
          (pre @ [status_event env (JBool False),
             Col_info 2 (''**AI Reason:** '' @ py_format env (JStr ''visible nose and mouth''))]) @
          [St_warning ''Violation detected! Sending alerts...'',
           Call_send_alert_email alert_subject (JStr ''visible nose and mouth'') image_bytes,
           Smtp_session (SENDER_EMAIL cfg) (EMAIL_PASSWORD cfg) (RECEIVER_EMAIL cfg)
             alert_subject (JStr ''visible nose and mouth'') image_bytes,
           r1,
           Call_send_whatsapp_alert (alert_body_whatsapp env (JStr ''visible nose and mouth'')),
           Twilio_request (TWILIO_ACCOUNT_SID cfg) (TWILIO_AUTH_TOKEN cfg)
             (''whatsapp:'' @ TWILIO_WHATSAPP_NUMBER cfg)
             (alert_body_whatsapp env (JStr ''visible nose and mouth''))
             (''whatsapp:'' @ MY_WHATSAPP_NUMBER cfg),
           r2]"
    unfolding m r by auto
  have sinks: "filter is_sink_call (added w (snd (analyze_button env cfg True image_bytes image_cv w))) =
       [Call_send_alert_email alert_subject (JStr ''visible nose and mouth'') image_bytes,
        Smtp_session (SENDER_EMAIL cfg) (EMAIL_PASSWORD cfg) (RECEIVER_EMAIL cfg)
          alert_subject (JStr ''visible nose and mouth'') image_bytes,
        Call_send_whatsapp_alert (alert_body_whatsapp env (JStr ''visible nose and mouth'')),
        Twilio_request (TWILIO_ACCOUNT_SID cfg) (TWILIO_AUTH_TOKEN cfg)
          (''whatsapp:'' @ TWILIO_WHATSAPP_NUMBER cfg)
          (alert_body_whatsapp env (JStr ''visible nose and mouth''))
          (''whatsapp:'' @ MY_WHATSAPP_NUMBER cfg)]"
    unfolding a using pre rep by (simp add: status_event_def report_silent)
  have subj: "alert_subject = ''ALERT: Face Mask Violation Detected!''"
    by (simp add: alert_subject_def)
  have body: "alert_body_whatsapp env (JStr ''visible nose and mouth'') =
       siren @ '' *ALERT: Face Mask Violation!* '' @ siren @ [nl, nl] @
       ''*Reason:* visible nose and mouth''"
    by (simp add: alert_body_whatsapp_def py_format_def)
  have ends: "\<exists>pre r1 r2. is_report r1 \<and> is_report r2 \<and>
        added w (snd (analyze_button env cfg True image_bytes image_cv w)) =
          pre @
          [St_warning ''Violation detected! Sending alerts...'',
           Call_send_alert_email alert_subject (JStr ''visible nose and mouth'') image_bytes,
           Smtp_session (SENDER_EMAIL cfg) (EMAIL_PASSWORD cfg) (RECEIVER_EMAIL cfg)
             alert_subject (JStr ''visible nose and mouth'') image_bytes,
           r1,
           Call_send_whatsapp_alert (alert_body_whatsapp env (JStr ''visible nose and mouth'')),
           Twilio_request (TWILIO_ACCOUNT_SID cfg) (TWILIO_AUTH_TOKEN cfg)
             (''whatsapp:'' @ TWILIO_WHATSAPP_NUMBER cfg)
             (alert_body_whatsapp env (JStr ''visible nose and mouth''))
             (''whatsapp:'' @ MY_WHATSAPP_NUMBER cfg),
           r2]"
    using rep a by blast
  show ?thesis
    using run sinks subj body subject_has_violation
      body_has_violation [of env "JStr ''visible nose and mouth''"]
      body_has_reason [of "''visible nose and mouth''" env] ends
    by blast
qed

theorem mask_violation_scenario_witness:
  "0 < snd (fst (detect_faces env_scenario 0 fixed_world)) \<and>
   snd (fst (detect_faces env_scenario 0 fixed_world)) = 2 \<and>
   analyze_try env_scenario fixed_cfg ''img'' =
      Inr (JObj [(''mask_detected'', JBool False), (''reason'', JStr ''visible nose and mouth'')]) \<and>
   fst (analyze_button env_scenario fixed_cfg True ''img'' 0 fixed_world) = None \<and>
   filter is_sink_call
     (added fixed_world (snd (analyze_button env_scenario fixed_cfg True ''img'' 0 fixed_world))) =
       [Call_send_alert_email ''ALERT: Face Mask Violation Detected!''
          (JStr ''visible nose and mouth'') ''img'',
        Smtp_session ''s@x'' ''p'' ''r@x'' ''ALERT: Face Mask Violation Detected!''
          (JStr ''visible nose and mouth'') ''img'',
        Call_send_whatsapp_alert
          (siren @ '' *ALERT: Face Mask Violation!* '' @ siren @ [nl, nl] @
           ''*Reason:* visible nose and mouth''),
        Twilio_request ''sid'' ''tok'' ''whatsapp:+1''
          (siren @ '' *ALERT: Face Mask Violation!* '' @ siren @ [nl, nl] @
           ''*Reason:* visible nose and mouth'') ''whatsapp:+2'']"
proof -
  have d: "0 < snd (fst (detect_faces env_scenario 0 fixed_world))"
    by (simp add: detect_faces_def env_scenario_def fixed_env_def fixed_world_def two_faces_def Let_def)
  have d2: "snd (fst (detect_faces env_scenario 0 fixed_world)) = 2"
    by (simp add: detect_faces_def env_scenario_def fixed_env_def fixed_world_def two_faces_def Let_def)
  have v: "analyze_try env_scenario fixed_cfg ''img'' =
      Inr (JObj [(''mask_detected'', JBool False), (''reason'', JStr ''visible nose and mouth'')])"
    by (simp add: analyze_try_def env_scenario_def fixed_env_def scenario_verdict_def)
  have c: "SENDER_EMAIL fixed_cfg = ''s@x''" "EMAIL_PASSWORD fixed_cfg = ''p''"
    "RECEIVER_EMAIL fixed_cfg = ''r@x''" "TWILIO_ACCOUNT_SID fixed_cfg = ''sid''"
    "TWILIO_AUTH_TOKEN fixed_cfg = ''tok''" "''whatsapp:'' @ TWILIO_WHATSAPP_NUMBER fixed_cfg = ''whatsapp:+1''"
    "''whatsapp:'' @ MY_WHATSAPP_NUMBER fixed_cfg = ''whatsapp:+2''"
    by (simp_all add: fixed_cfg_def)
  from mask_violation_scenario [OF d v]
  have "fst (analyze_button env_scenario fixed_cfg True ''img'' 0 fixed_world) = None"
    and s: "filter is_sink_call
     (added fixed_world (snd (analyze_button env_scenario fixed_cfg True ''img'' 0 fixed_world))) =
       [Call_send_alert_email alert_subject (JStr ''visible nose and mouth'') ''img'',
        Smtp_session (SENDER_EMAIL fixed_cfg) (EMAIL_PASSWORD fixed_cfg) (RECEIVER_EMAIL fixed_cfg)
          alert_subject (JStr ''visible nose and mouth'') ''img'',
        Call_send_whatsapp_alert (alert_body_whatsapp env_scenario (JStr ''visible nose and mouth'')),
        Twilio_request (TWILIO_ACCOUNT_SID fixed_cfg) (TWILIO_AUTH_TOKEN fixed_cfg)
          (''whatsapp:'' @ TWILIO_WHATSAPP_NUMBER fixed_cfg)
          (alert_body_whatsapp env_scenario (JStr ''visible nose and mouth''))
          (''whatsapp:'' @ MY_WHATSAPP_NUMBER fixed_cfg)]"
    and subj: "alert_subject = ''ALERT: Face Mask Violation Detected!''"
    and body: "alert_body_whatsapp env_scenario (JStr ''visible nose and mouth'') =
       siren @ '' *ALERT: Face Mask Violation!* '' @ siren @ [nl, nl] @
       ''*Reason:* visible nose and mouth''"
    by blast+
  then show ?thesis
    using d d2 v unfolding c by simp
qed

text \<open>
  C1, as the code has it. When the answer of the model parses as a JSON object without the
  key \<open>mask_detected\<close>, \<open>analyze_image_for_mask\<close> returns that object as it is, not
  \<open>None\<close>: no key is checked. The script reads the missing indicator as \<open>False\<close>
  (\<open>.get("mask_detected", False)\<close>): with faces found and a non-empty object it shows the
  violation status and, when alerts are enabled, calls both sinks (none when they are
  disabled); the empty object is falsy, so the script stops with no status and no alert.
\<close>

theorem missing_mask_key_is_violation:
  assumes "0 < snd (fst (detect_faces env image_cv w))"
    and "analyze_try env cfg image_bytes = Inr (JObj kvs)"
    and "map_of kvs ''mask_detected'' = None"
  shows "fst (analyze_image_for_mask env cfg image_bytes w') = JObj kvs \<and>
     fst (analyze_button env cfg alerts_enabled image_bytes image_cv w) = None \<and>
     filter is_status (added w (snd (analyze_button env cfg alerts_enabled image_bytes image_cv w))) =
       (if kvs = [] then [] else [Col_error 1 ''**Status:** No Mask Detected (Violation)'']) \<and>
     filter is_sink_call (added w (snd (analyze_button env cfg alerts_enabled image_bytes image_cv w))) =
       (if kvs \<noteq> [] \<and> alerts_enabled
        then alert_calls env cfg (dict_get kvs ''reason'' (JStr ''No reason provided.'')) image_bytes
        else [])"
proof -
  have ret: "fst (analyze_image_for_mask env cfg image_bytes w') = JObj kvs"
    using assms(2) by (simp add: analyze_value)
  show ?thesis
  proof (cases "kvs = []")
    case True
    have "\<not> truthy (float_nonzero env)
        (case analyze_try env cfg image_bytes of Inr v \<Rightarrow> v | Inl e \<Rightarrow> JNull)"
      using assms(2) True by simp
    from show_nothing [OF this, of alerts_enabled image_cv w]
    show ?thesis using ret True by simp
  next
    case False
    have m: "dict_get kvs ''mask_detected'' (JBool False) = JBool False"
      using assms(3) by (simp add: dict_get_def)
    show ?thesis
      using button_dict [OF assms(1,2) False, of alerts_enabled] ret False
      by (auto simp: m status_event_def report_silent alert_calls_def)
  qed
qed

theorem missing_mask_key_is_violation_witness:
  "0 < snd (fst (detect_faces env_reason_only 0 fixed_world)) \<and>
   analyze_try env_reason_only fixed_cfg ''img'' = Inr (JObj [(''reason'', JStr ''unclear'')]) \<and>
   map_of [(''reason'', JStr ''unclear'' :: unit json)] ''mask_detected'' = None \<and>
   fst (analyze_image_for_mask env_reason_only fixed_cfg ''img'' fixed_world) =
     JObj [(''reason'', JStr ''unclear'')] \<and>
   filter is_status
     (added fixed_world (snd (analyze_button env_reason_only fixed_cfg True ''img'' 0 fixed_world))) =
     [Col_error 1 ''**Status:** No Mask Detected (Violation)''] \<and>
   filter is_sink_call
     (added fixed_world (snd (analyze_button env_reason_only fixed_cfg True ''img'' 0 fixed_world))) =
     alert_calls env_reason_only fixed_cfg (JStr ''unclear'') ''img''"
proof -
  have d: "0 < snd (fst (detect_faces env_reason_only 0 fixed_world))"
    by (simp add: detect_faces_def env_reason_only_def fixed_env_def fixed_world_def two_faces_def Let_def)
  have v: "analyze_try env_reason_only fixed_cfg ''img'' = Inr (JObj [(''reason'', JStr ''unclear'')])"
    by (simp add: analyze_try_def env_reason_only_def fixed_env_def reason_only_def)
  have k: "map_of [(''reason'', JStr ''unclear'' :: unit json)] ''mask_detected'' = None"
    by simp
  show ?thesis
    using d v k missing_mask_key_is_violation [OF d v k, of fixed_world True]
    by (simp add: dict_get_def)
qed

theorem missing_mask_key_counterexample:
  "analyze_try env_reason_only fixed_cfg ''img'' = Inr (JObj [(''reason'', JStr ''unclear'')]) \<and>
   fst (analyze_image_for_mask env_reason_only fixed_cfg ''img'' fixed_world) \<noteq> JNull \<and>
   filter is_sink_call
     (added fixed_world (snd (analyze_button env_reason_only fixed_cfg True ''img'' 0 fixed_world))) =
     [Call_send_alert_email ''ALERT: Face Mask Violation Detected!'' (JStr ''unclear'') ''img'',
      Smtp_session ''s@x'' ''p'' ''r@x'' ''ALERT: Face Mask Violation Detected!'' (JStr ''unclear'') ''img'',
      Call_send_whatsapp_alert
        (siren @ '' *ALERT: Face Mask Violation!* '' @ siren @ [nl, nl] @ ''*Reason:* unclear''),
      Twilio_request ''sid'' ''tok'' ''whatsapp:+1''
        (siren @ '' *ALERT: Face Mask Violation!* '' @ siren @ [nl, nl] @ ''*Reason:* unclear'')
        ''whatsapp:+2'']"
proof -
  have d: "0 < snd (fst (detect_faces env_reason_only 0 fixed_world))"
    by (simp add: detect_faces_def env_reason_only_def fixed_env_def fixed_world_def two_faces_def Let_def)
  have v: "analyze_try env_reason_only fixed_cfg ''img'' = Inr (JObj [(''reason'', JStr ''unclear'')])"
    by (simp add: analyze_try_def env_reason_only_def fixed_env_def reason_only_def)
  have ne: "[(''reason'', JStr ''unclear'' :: unit json)] \<noteq> []" by simp
  have ret: "fst (analyze_image_for_mask env_reason_only fixed_cfg ''img'' fixed_world) \<noteq> JNull"
    using v by (simp add: analyze_value)
  have m: "dict_get [(''reason'', JStr ''unclear'' :: unit json)] ''mask_detected'' (JBool False) = JBool False"
    "dict_get [(''reason'', JStr ''unclear'' :: unit json)] ''reason'' (JStr ''No reason provided.'') =
       JStr ''unclear''"
    by (simp_all add: dict_get_def)
  have body: "alert_body_whatsapp env_reason_only (JStr ''unclear'') =
      siren @ '' *ALERT: Face Mask Violation!* '' @ siren @ [nl, nl] @ ''*Reason:* unclear''"
    by (simp add: alert_body_whatsapp_def py_format_def)
  have c: "SENDER_EMAIL fixed_cfg = ''s@x''" "EMAIL_PASSWORD fixed_cfg = ''p''"
    "RECEIVER_EMAIL fixed_cfg = ''r@x''" "TWILIO_ACCOUNT_SID fixed_cfg = ''sid''"
    "TWILIO_AUTH_TOKEN fixed_cfg = ''tok''" "''whatsapp:'' @ TWILIO_WHATSAPP_NUMBER fixed_cfg = ''whatsapp:+1''"
    "''whatsapp:'' @ MY_WHATSAPP_NUMBER fixed_cfg = ''whatsapp:+2''"
    by (simp_all add: fixed_cfg_def)
  have "filter is_sink_call
     (added fixed_world (snd (analyze_button env_reason_only fixed_cfg True ''img'' 0 fixed_world))) =
     [Call_send_alert_email alert_subject (JStr ''unclear'') ''img'',
      Smtp_session (SENDER_EMAIL fixed_cfg) (EMAIL_PASSWORD fixed_cfg) (RECEIVER_EMAIL fixed_cfg)
        alert_subject (JStr ''unclear'') ''img'',
      Call_send_whatsapp_alert (alert_body_whatsapp env_reason_only (JStr ''unclear'')),
      Twilio_request (TWILIO_ACCOUNT_SID fixed_cfg) (TWILIO_AUTH_TOKEN fixed_cfg)
        (''whatsapp:'' @ TWILIO_WHATSAPP_NUMBER fixed_cfg)
        (alert_body_whatsapp env_reason_only (JStr ''unclear''))
        (''whatsapp:'' @ MY_WHATSAPP_NUMBER fixed_cfg)]"
    using button_dict [OF d v ne, of True] unfolding m
    by (auto simp: status_event_def report_silent)
  then show ?thesis
    using v ret unfolding c body by (simp add: alert_subject_def)
qed

text \<open>
  C10. When the verdict is a non-empty dict without the key \<open>reason\<close> and faces were
  found, every use of the reason gets \<open>"No reason provided."\<close>: the line shown to the
  operator, the body of the mail and the text of the message (the last two exist when
  the verdict is a violation and alerts are enabled). No exception leaves the script.
\<close>

theorem missing_reason_default:
  assumes "0 < snd (fst (detect_faces env image_cv w))"
    and "analyze_try env cfg image_bytes = Inr (JObj kvs)"
    and "kvs \<noteq> []"
    and "map_of kvs ''reason'' = None"
  shows "fst (analyze_button env cfg alerts_enabled image_bytes image_cv w) = None \<and>
     filter is_reason_use
       (added w (snd (analyze_button env cfg alerts_enabled image_bytes image_cv w))) =
       Col_info 2 ''**AI Reason:** No reason provided.'' #
       (if \<not> truthy (float_nonzero env) (dict_get kvs ''mask_detected'' (JBool False)) \<and>
           alerts_enabled
        then [Call_send_alert_email ''ALERT: Face Mask Violation Detected!''
                (JStr ''No reason provided.'') image_bytes,
              Smtp_session (SENDER_EMAIL cfg) (EMAIL_PASSWORD cfg) (RECEIVER_EMAIL cfg)
                ''ALERT: Face Mask Violation Detected!'' (JStr ''No reason provided.'') image_bytes,
              Call_send_whatsapp_alert
                (siren @ '' *ALERT: Face Mask Violation!* '' @ siren @ [nl, nl] @
                 ''*Reason:* No reason provided.''),
              Twilio_request (TWILIO_ACCOUNT_SID cfg) (TWILIO_AUTH_TOKEN cfg)
                (''whatsapp:'' @ TWILIO_WHATSAPP_NUMBER cfg)
                (siren @ '' *ALERT: Face Mask Violation!* '' @ siren @ [nl, nl] @
                 ''*Reason:* No reason provided.'')
                (''whatsapp:'' @ MY_WHATSAPP_NUMBER cfg)]
        else [])"
proof -
  have r: "dict_get kvs ''reason'' (JStr ''No reason provided.'') = JStr ''No reason provided.''"
    using assms(4) by (simp add: dict_get_def)
  have body: "alert_body_whatsapp env (JStr ''No reason provided.'') =
      siren @ '' *ALERT: Face Mask Violation!* '' @ siren @ [nl, nl] @ ''*Reason:* No reason provided.''"
    by (simp add: alert_body_whatsapp_def py_format_def)
  have info: "''**AI Reason:** '' @ py_format env (JStr ''No reason provided.'') =
      ''**AI Reason:** No reason provided.''"
    by (simp add: py_format_def)
  have st: "\<not> is_reason_use (status_event env (dict_get kvs ''mask_detected'' (JBool False)))"
    by (simp add: status_event_def)
  from button_dict [OF assms(1,2,3), of alerts_enabled]
  obtain pre tl where run: "fst (analyze_button env cfg alerts_enabled image_bytes image_cv w) = None"
    and pre: "filter is_reason_use pre = []"
    and a: "added w (snd (analyze_button env cfg alerts_enabled image_bytes image_cv w)) =
        pre @ [status_event env (dict_get kvs ''mask_detected'' (JBool False)),
               Col_info 2 ''**AI Reason:** No reason provided.''] @ tl"
    and tl: "(if \<not> truthy (float_nonzero env) (dict_get kvs ''mask_detected'' (JBool False)) \<and>
              alerts_enabled
          then \<exists>r1 r2. is_report r1 \<and> is_report r2 \<and>
             tl = [St_warning ''Violation detected! Sending alerts...'',
              Call_send_alert_email alert_subject (JStr ''No reason provided.'') image_bytes,
              Smtp_session (SENDER_EMAIL cfg) (EMAIL_PASSWORD cfg) (RECEIVER_EMAIL cfg) alert_subject
                 (JStr ''No reason provided.'') image_bytes,
              r1,
              Call_send_whatsapp_alert
                (siren @ '' *ALERT: Face Mask Violation!* '' @ siren @ [nl, nl] @
                 ''*Reason:* No reason provided.''),
              Twilio_request (TWILIO_ACCOUNT_SID cfg) (TWILIO_AUTH_TOKEN cfg)
                (''whatsapp:'' @ TWILIO_WHATSAPP_NUMBER cfg)
                (siren @ '' *ALERT: Face Mask Violation!* '' @ siren @ [nl, nl] @
                 ''*Reason:* No reason provided.'')
                (''whatsapp:'' @ MY_WHATSAPP_NUMBER cfg),
              r2]
          else tl = [])"
    unfolding r body info by blast
  have f: "filter is_reason_use
       (added w (snd (analyze_button env cfg alerts_enabled image_bytes image_cv w))) =
       Col_info 2 ''**AI Reason:** No reason provided.'' # filter is_reason_use tl"
    unfolding a using pre st by simp
  show ?thesis
    unfolding f using run tl
    by (auto simp: report_silent alert_subject_def)
qed

theorem missing_reason_default_witness:
  "0 < snd (fst (detect_faces env_mask_only 0 fixed_world)) \<and>
   analyze_try env_mask_only fixed_cfg ''img'' = Inr (JObj [(''mask_detected'', JBool False)]) \<and>
   map_of [(''mask_detected'', JBool False :: unit json)] ''reason'' = None \<and>
   filter is_reason_use
     (added fixed_world (snd (analyze_button env_mask_only fixed_cfg True ''img'' 0 fixed_world))) =
     [Col_info 2 ''**AI Reason:** No reason provided.'',
      Call_send_alert_email ''ALERT: Face Mask Violation Detected!''
        (JStr ''No reason provided.'') ''img'',
      Smtp_session ''s@x'' ''p'' ''r@x'' ''ALERT: Face Mask Violation Detected!''
        (JStr ''No reason provided.'') ''img'',
      Call_send_whatsapp_alert
        (siren @ '' *ALERT: Face Mask Violation!* '' @ siren @ [nl, nl] @
         ''*Reason:* No reason provided.''),
      Twilio_request ''sid'' ''tok'' ''whatsapp:+1''
        (siren @ '' *ALERT: Face Mask Violation!* '' @ siren @ [nl, nl] @
         ''*Reason:* No reason provided.'') ''whatsapp:+2'']"
proof -
  have d: "0 < snd (fst (detect_faces env_mask_only 0 fixed_world))"
    by (simp add: detect_faces_def env_mask_only_def fixed_env_def fixed_world_def two_faces_def Let_def)
  have v: "analyze_try env_mask_only fixed_cfg ''img'' = Inr (JObj [(''mask_detected'', JBool False)])"
    by (simp add: analyze_try_def env_mask_only_def fixed_env_def mask_only_def)
  have ne: "[(''mask_detected'', JBool False :: unit json)] \<noteq> []" by simp
  have k: "map_of [(''mask_detected'', JBool False :: unit json)] ''reason'' = None"
    by simp
  have m: "dict_get [(''mask_detected'', JBool False :: unit json)] ''mask_detected'' (JBool False) =
      JBool False"
    by (simp add: dict_get_def)
  have c: "SENDER_EMAIL fixed_cfg = ''s@x''" "EMAIL_PASSWORD fixed_cfg = ''p''"
    "RECEIVER_EMAIL fixed_cfg = ''r@x''" "TWILIO_ACCOUNT_SID fixed_cfg = ''sid''"
    "TWILIO_AUTH_TOKEN fixed_cfg = ''tok''" "''whatsapp:'' @ TWILIO_WHATSAPP_NUMBER fixed_cfg = ''whatsapp:+1''"
    "''whatsapp:'' @ MY_WHATSAPP_NUMBER fixed_cfg = ''whatsapp:+2''"
    by (simp_all add: fixed_cfg_def)
  show ?thesis
    using d v k missing_reason_default [OF d v ne k, of True] unfolding m c by simp
qed

text \<open>
  C4. When the call to the model raises, or \<open>json.loads\<close> raises on its answer,
  \<open>analyze_image_for_mask\<close> reports the error and returns \<open>None\<close>; the script then ends
  with no exception and with no alert function or alert service called.
\<close>

theorem classifier_failure_no_alert:
  assumes "classifier_fails env cfg image_bytes e"
  shows "fst (analyze_image_for_mask env cfg image_bytes w') = JNull \<and>
     added w' (snd (analyze_image_for_mask env cfg image_bytes w')) =
       [Call_analyze_image_for_mask image_bytes,
        Groq_request (GROQ_API_KEY cfg) (mask_request env image_bytes),
        St_error (''Groq API Error: '' @ exn_str e)] \<and>
     fst (analyze_button env cfg alerts_enabled image_bytes image_cv w) = None \<and>
     filter is_sink_call
       (added w (snd (analyze_button env cfg alerts_enabled image_bytes image_cv w))) = []"
proof -
  have t: "analyze_try env cfg image_bytes = Inl e"
    using assms by (rule classifier_fails_try)
  have ret: "fst (analyze_image_for_mask env cfg image_bytes w') = JNull"
    using t by (simp add: analyze_value)
  have "log (snd (analyze_image_for_mask env cfg image_bytes w')) = log w' @
       [Call_analyze_image_for_mask image_bytes,
        Groq_request (GROQ_API_KEY cfg) (mask_request env image_bytes),
        St_error (''Groq API Error: '' @ exn_str e)]"
    unfolding analyze_log t by simp
  then have a: "added w' (snd (analyze_image_for_mask env cfg image_bytes w')) =
       [Call_analyze_image_for_mask image_bytes,
        Groq_request (GROQ_API_KEY cfg) (mask_request env image_bytes),
        St_error (''Groq API Error: '' @ exn_str e)]"
    by (rule added_append)
  have "\<not> truthy (float_nonzero env)
        (case analyze_try env cfg image_bytes of Inr v \<Rightarrow> v | Inl e \<Rightarrow> JNull)"
    using t by simp
  from show_nothing [OF this, of alerts_enabled image_cv w]
  show ?thesis using ret a by simp
qed

theorem classifier_failure_no_alert_witness:
  "classifier_fails env_groq_down fixed_cfg ''img'' (Exn OtherError ''connection refused'') \<and>
   classifier_fails env_bad_json fixed_cfg ''img'' (Exn OtherError ''Expecting value'') \<and>
   fst (analyze_image_for_mask env_groq_down fixed_cfg ''img'' fixed_world) = JNull \<and>
   fst (analyze_image_for_mask env_bad_json fixed_cfg ''img'' fixed_world) = JNull \<and>
   0 < snd (fst (detect_faces env_bad_json 0 fixed_world)) \<and>
   fst (analyze_button env_bad_json fixed_cfg True ''img'' 0 fixed_world) = None \<and>
   filter is_sink_call
     (added fixed_world (snd (analyze_button env_bad_json fixed_cfg True ''img'' 0 fixed_world))) = []"
proof -
  have g: "classifier_fails env_groq_down fixed_cfg ''img'' (Exn OtherError ''connection refused'')"
    by (simp add: classifier_fails_def env_groq_down_def fixed_env_def)
  have j: "classifier_fails env_bad_json fixed_cfg ''img'' (Exn OtherError ''Expecting value'')"
    by (simp add: classifier_fails_def env_bad_json_def fixed_env_def)
  have d: "0 < snd (fst (detect_faces env_bad_json 0 fixed_world))"
    by (simp add: detect_faces_def env_bad_json_def fixed_env_def fixed_world_def two_faces_def Let_def)
  show ?thesis
    using g j d classifier_failure_no_alert [OF g, of fixed_world True 0 fixed_world]
      classifier_failure_no_alert [OF j, of fixed_world True 0 fixed_world]
    by simp
qed

text \<open>
  C7. Any exception raised inside the \<open>try\<close> of \<open>detect_faces\<close> (by loading the cascade,
  by the detector, or while the rectangles are drawn) is reported with \<open>st.error\<close> and the
  function returns its argument and a count of zero; the script then ends without
  exception, without calling the classifier and without any alert.
\<close>

theorem detection_failure_zero_faces:
  assumes "detection_fails env image_np (heap w) e"
  shows "fst (detect_faces env image_np w) = (image_np, 0) \<and>
     added w (snd (detect_faces env image_np w)) =
       [St_error (if exn_class e = FileNotFoundError
          then ''haarcascade_frontalface_default.xml not found. Please download it.''
          else ''Face detection error: '' @ exn_str e)] \<and>
     fst (analyze_button env cfg alerts_enabled image_bytes image_np w) = None \<and>
     filter is_classifier_call
       (added w (snd (analyze_button env cfg alerts_enabled image_bytes image_np w))) = [] \<and>
     filter is_sink_call
       (added w (snd (analyze_button env cfg alerts_enabled image_bytes image_np w))) = []"
proof -
  have r: "fst (detect_faces env image_np w) = (image_np, 0)"
    using detect_faces_fails(1) [OF assms] by (metis fst_conv)
  have a: "added w (snd (detect_faces env image_np w)) =
       [St_error (if exn_class e = FileNotFoundError
          then ''haarcascade_frontalface_default.xml not found. Please download it.''
          else ''Face detection error: '' @ exn_str e)]"
    using detect_faces_fails(2) [OF assms] by (rule added_append)
  obtain b w2 where d:
    "detect_faces env image_np (emit (St_spinner ''Step 1/2: Detecting faces...'') w) = ((b, 0), w2)"
    using faces_found [of env image_np w] r by (metis snd_conv)
  obtain es where es: "list_all is_report es"
    "added w (snd (analyze_button env cfg alerts_enabled image_bytes image_np w)) =
       St_spinner ''Step 1/2: Detecting faces...'' # es @
       [St_warning ''No faces were detected in the image. Cannot proceed with mask analysis.'',
        St_image (heap w2 ! b) ''Face Detection Result'']"
    using analyze_button_no_faces(2) [OF d, of cfg alerts_enabled image_bytes] by blast
  have run: "fst (analyze_button env cfg alerts_enabled image_bytes image_np w) = None"
    using analyze_button_no_faces(1) [OF d, of cfg alerts_enabled image_bytes] by simp
  have c: "filter is_classifier_call
       (added w (snd (analyze_button env cfg alerts_enabled image_bytes image_np w))) = []"
    unfolding es(2) using reports_silent(2) [OF es(1)] by simp
  have s: "filter is_sink_call
       (added w (snd (analyze_button env cfg alerts_enabled image_bytes image_np w))) = []"
    unfolding es(2) using reports_silent(1) [OF es(1)] by simp
  show ?thesis using r a run c s by blast
qed

theorem detection_failure_zero_faces_witness:
  "detection_fails env_no_cascade 0 (heap fixed_world) (Exn FileNotFoundError ''missing'') \<and>
   fst (detect_faces env_no_cascade 0 fixed_world) = (0, 0) \<and>
   added fixed_world (snd (detect_faces env_no_cascade 0 fixed_world)) =
     [St_error ''haarcascade_frontalface_default.xml not found. Please download it.''] \<and>
   fst (analyze_button env_no_cascade fixed_cfg True ''img'' 0 fixed_world) = None \<and>
   filter is_classifier_call
     (added fixed_world (snd (analyze_button env_no_cascade fixed_cfg True ''img'' 0 fixed_world))) = []"
proof -
  have f: "detection_fails env_no_cascade 0 (heap fixed_world) (Exn FileNotFoundError ''missing'')"
    by (simp add: detection_fails_def env_no_cascade_def fixed_env_def fixed_world_def)
  show ?thesis
    using f detection_failure_zero_faces [OF f, of fixed_cfg True "''img''"] by simp
qed

text \<open>
  C8. \<open>detect_faces\<close> leaves every array that existed before the call as it was, its
  argument among them. When nothing raises, what it returns is a new array: the copy of
  the argument with a rectangle drawn for each face; when something raises, it returns
  the argument itself, unchanged. After the whole run of the button the argument still
  has its pixels, and every event that carries image bytes (the call of the classifier
  and its request, the call of the mail function and its session) carries the bytes
  the button was given.
\<close>

theorem original_image_untouched:
  assumes "image_cv < length (heap w)"
  shows "heap (snd (detect_faces env image_cv w)) ! image_cv = heap w ! image_cv \<and>
     take (length (heap w)) (heap (snd (detect_faces env image_cv w))) = heap w \<and>
     (case cv_detect env (heap w ! image_cv) of
        Inl e \<Rightarrow> fst (detect_faces env image_cv w) = (image_cv, 0)
      | Inr faces \<Rightarrow>
          (case draw_all env (heap w ! image_cv) faces of
             Inl e \<Rightarrow> fst (detect_faces env image_cv w) = (image_cv, 0)
           | Inr img \<Rightarrow>
               fst (detect_faces env image_cv w) = (length (heap w), length faces) \<and>
               heap (snd (detect_faces env image_cv w)) = heap w @ [img])) \<and>
     heap (snd (analyze_button env cfg alerts_enabled image_bytes image_cv w)) ! image_cv =
       heap w ! image_cv \<and>
     list_all (carries_original env image_bytes)
       (added w (snd (analyze_button env cfg alerts_enabled image_bytes image_cv w)))"
proof -
  have t: "take (length (heap w)) (heap (snd (detect_faces env image_cv w))) = heap w"
    by (rule detect_faces_take)
  have "heap (snd (detect_faces env image_cv w)) ! image_cv =
      take (length (heap w)) (heap (snd (detect_faces env image_cv w))) ! image_cv"
    using assms by simp
  then have k: "heap (snd (detect_faces env image_cv w)) ! image_cv = heap w ! image_cv"
    unfolding t .
  have b: "heap (snd (analyze_button env cfg alerts_enabled image_bytes image_cv w)) ! image_cv =
       heap w ! image_cv"
    unfolding analyze_button_heap by (rule k)
  show ?thesis
    using k t detect_faces_result [where env = env and w = w and a = image_cv] b
      analyze_button_any [where w = w and env = env and cfg = cfg and al = alerts_enabled
        and bs = image_bytes and image_cv = image_cv]
    by blast
qed

theorem original_image_untouched_witness:
  "0 < length (heap fixed_world) \<and> heap fixed_world ! 0 = 7 \<and>
   fst (detect_faces env_scenario 0 fixed_world) = (1, 2) \<and>
   heap (snd (detect_faces env_scenario 0 fixed_world)) = [7, 9] \<and>
   heap (snd (analyze_button env_scenario fixed_cfg True ''img'' 0 fixed_world)) ! 0 = 7 \<and>
   list_all (carries_original env_scenario ''img'')
     (added fixed_world (snd (analyze_button env_scenario fixed_cfg True ''img'' 0 fixed_world)))"
proof -
  have h: "0 < length (heap fixed_world)"
    by (simp add: fixed_world_def)
  have c: "cv_detect env_scenario (heap fixed_world ! 0) = Inr two_faces"
    by (simp add: env_scenario_def fixed_env_def)
  have dr: "draw_all env_scenario (heap fixed_world ! 0) two_faces = Inr 9"
    by (simp add: env_scenario_def fixed_env_def fixed_world_def two_faces_def)
  note t = original_image_untouched [OF h, where env = env_scenario and cfg = fixed_cfg
      and alerts_enabled = True and image_bytes = "''img''"]
  have r: "fst (detect_faces env_scenario 0 fixed_world) = (length (heap fixed_world), length two_faces) \<and>
      heap (snd (detect_faces env_scenario 0 fixed_world)) = heap fixed_world @ [9]"
    using t by (simp add: c dr)
  have o: "heap (snd (analyze_button env_scenario fixed_cfg True ''img'' 0 fixed_world)) ! 0 =
      heap fixed_world ! 0"
    using t by blast
  have l: "list_all (carries_original env_scenario ''img'')
     (added fixed_world (snd (analyze_button env_scenario fixed_cfg True ''img'' 0 fixed_world)))"
    using t by blast
  have w: "heap fixed_world = [7]"
    by (simp add: fixed_world_def)
  show ?thesis
    using r o l unfolding w by (simp add: two_faces_def)
qed

text \<open>
  C9. In every run the sink events are none at all, or the call of \<open>send_alert_email\<close>
  with its SMTP session followed by the call of \<open>send_whatsapp_alert\<close> with its Twilio
  request: the mail always comes first.
\<close>

theorem email_before_whatsapp:
  "filter is_sink_call (added w (snd (analyze_button env cfg alerts_enabled image_bytes image_cv w))) = [] \<or>
   (\<exists>reason.
      filter is_sink_call (added w (snd (analyze_button env cfg alerts_enabled image_bytes image_cv w))) =
        [Call_send_alert_email alert_subject reason image_bytes,
         Smtp_session (SENDER_EMAIL cfg) (EMAIL_PASSWORD cfg) (RECEIVER_EMAIL cfg)
           alert_subject reason image_bytes,
         Call_send_whatsapp_alert (alert_body_whatsapp env reason),
         Twilio_request (TWILIO_ACCOUNT_SID cfg) (TWILIO_AUTH_TOKEN cfg)
           (''whatsapp:'' @ TWILIO_WHATSAPP_NUMBER cfg) (alert_body_whatsapp env reason)
           (''whatsapp:'' @ MY_WHATSAPP_NUMBER cfg)])"
  using analyze_button_any [where w = w and env = env and cfg = cfg and al = alerts_enabled
      and bs = image_bytes and image_cv = image_cv]
  unfolding alert_calls_def by blast

section \<open>From the upload to the alerts\<close>

text \<open>
  In the script the bytes given to the button are those of the uploaded file or of the
  camera picture, and the array given to \<open>detect_faces\<close> is the one just decoded from
  them: every event of the script that carries image bytes carries these bytes, and the
  decoded array has its pixels when the script ends.
\<close>

lemma app_script_clicked:
  assumes "(case uploaded of Some f \<Rightarrow> Some f | None \<Rightarrow> camera) = Some bs"
    and "decode_bgr env bs = Inr img"
  shows "\<exists>pre w4. list_all (carries_original env bs) pre \<and> log w4 = log w @ pre \<and>
     heap w4 = heap w @ [img] \<and>
     app_script env cfg al uploaded camera True w =
       analyze_button env cfg al bs (length (heap w)) w4 \<and>
     app_script env cfg al uploaded camera False w = (None, w4)"
proof (cases uploaded)
  case None
  then have c: "camera = Some bs" using assms(1) by simp
  show ?thesis
    unfolding None c using assms(2)
    by (simp add: app_script_def Let_def emit_def)
next
  case (Some f)
  then have f: "f = bs" using assms(1) by simp
  show ?thesis
    unfolding Some f using assms(2)
    by (simp add: app_script_def Let_def emit_def)
qed

lemma app_script_passes_input:
  assumes "(case uploaded of Some f \<Rightarrow> Some f | None \<Rightarrow> camera) = Some bs"
  shows "list_all (carries_original env bs)
     (added w (snd (app_script env cfg al uploaded camera clicked w)))"
proof (cases "decode_bgr env bs")
  case (Inl e)
  show ?thesis
  proof (cases uploaded)
    case None
    then have c: "camera = Some bs" using assms by simp
    show ?thesis
      unfolding None c using Inl by (simp add: app_script_def Let_def added_def)
  next
    case (Some f)
    then have f: "f = bs" using assms by simp
    show ?thesis
      unfolding Some f using Inl by (simp add: app_script_def Let_def added_def)
  qed
next
  case (Inr img)
  from app_script_clicked [OF assms Inr, of w cfg al]
  obtain pre w4 where pre: "list_all (carries_original env bs) pre" "log w4 = log w @ pre"
    and t: "app_script env cfg al uploaded camera True w =
       analyze_button env cfg al bs (length (heap w)) w4"
    and f: "app_script env cfg al uploaded camera False w = (None, w4)"
    by blast
  show ?thesis
  proof (cases clicked)
    case False
    have "added w (snd (app_script env cfg al uploaded camera False w)) = pre"
      unfolding f by (rule added_append) (use pre(2) in simp)
    then show ?thesis using False pre(1) by simp
  next
    case True
    let ?w' = "snd (analyze_button env cfg al bs (length (heap w)) w4)"
    have l: "log ?w' = log w4 @ added w4 ?w'"
      and c: "list_all (carries_original env bs) (added w4 ?w')"
      using analyze_button_any [where w = w4 and env = env and cfg = cfg and al = al
          and bs = bs and image_cv = "length (heap w)"]
      by blast+
    have "log ?w' = log w @ (pre @ added w4 ?w')"
      using l pre(2) by simp
    then have "added w ?w' = pre @ added w4 ?w'"
      by (rule added_append)
    then show ?thesis using True t pre(1) c by simp
  qed
qed

lemma app_script_keeps_pixels:
  assumes "(case uploaded of Some f \<Rightarrow> Some f | None \<Rightarrow> camera) = Some bs"
    and "decode_bgr env bs = Inr img"
  shows "heap (snd (app_script env cfg al uploaded camera clicked w)) ! length (heap w) = img"
proof -
  from app_script_clicked [OF assms, of w cfg al]
  obtain pre w4 where h: "heap w4 = heap w @ [img]"
    and t: "app_script env cfg al uploaded camera True w =
       analyze_button env cfg al bs (length (heap w)) w4"
    and f: "app_script env cfg al uploaded camera False w = (None, w4)"
    by blast
  show ?thesis
  proof (cases clicked)
    case False
    then show ?thesis using f h by simp
  next
    case True
    have "take (length (heap w4)) (heap (snd (detect_faces env (length (heap w)) w4))) = heap w4"
      by (rule detect_faces_take)
    then have "take (length (heap w4)) (heap (snd (detect_faces env (length (heap w)) w4))) !
        length (heap w) = img"
      using h by simp
    then have "heap (snd (detect_faces env (length (heap w)) w4)) ! length (heap w) = img"
      using h by simp
    then show ?thesis
      using True t by (simp add: analyze_button_heap)
  qed
qed

end
